theory Spec2Isabelle
  imports Main
begin

section \<open>Exceptions, log records and the platform enum\<close>

text \<open>
  Every failure of the account service reaches its caller as a Python \<open>ValueError\<close>
  carrying a message. The platform clients raise \<open>PlatformAPIError\<close>; every other
  exception type (database errors, \<open>KeyError\<close>, \<open>AttributeError\<close>, ...) is
  \<open>OtherError\<close>. The string is what \<open>str(exc)\<close> gives; for an exception of the
  Python runtime it is the name of the exception class.
\<close>

datatype exn = ValueError string | PlatformAPIError string | OtherError string

fun str :: "exn \<Rightarrow> string" where
  "str (ValueError m) = m"
| "str (PlatformAPIError m) = m"
| "str (OtherError m) = m"

fun is_ValueError :: "exn \<Rightarrow> bool" where
  "is_ValueError (ValueError m) = True"
| "is_ValueError (PlatformAPIError m) = False"
| "is_ValueError (OtherError m) = False"

text \<open>
  A log record is the level and the message of one \<open>logger\<close> call; the \<open>extra\<close>
  dictionary of the call is not kept.
\<close>

datatype level = DEBUG | INFO | WARNING | ERROR

type_synonym log_record = "level \<times> string"

text \<open>
  Modelled from the spec: the \<open>Platform\<close> enum of
  \<open>src/social_media/enums/platform_enums.py\<close>, which is not among the source files.
  The spec fixes its members and their lowercase values:
  \<open>facebook | instagram | twitter | tiktok | youtube\<close>.
\<close>

datatype Platform = FACEBOOK | INSTAGRAM | TWITTER | TIKTOK | YOUTUBE

fun platform_value :: "Platform \<Rightarrow> string" where
  "platform_value FACEBOOK = ''facebook''"
| "platform_value INSTAGRAM = ''instagram''"
| "platform_value TWITTER = ''twitter''"
| "platform_value TIKTOK = ''tiktok''"
| "platform_value YOUTUBE = ''youtube''"

definition all_platforms :: "Platform list" where
  "all_platforms = [FACEBOOK, INSTAGRAM, TWITTER, TIKTOK, YOUTUBE]"

text \<open>
  \<open>Platform(s)\<close>: the member whose value is \<open>s\<close>, or the enum's \<open>ValueError\<close>.
\<close>

definition Platform_of :: "string \<Rightarrow> exn + Platform" where
  "Platform_of s =
     (case find (\<lambda>p. platform_value p = s) all_platforms of
        Some p \<Rightarrow> Inr p
      | None \<Rightarrow> Inl (ValueError ([CHR 0x27] @ s @ [CHR 0x27] @ '' is not a valid Platform'')))"

section \<open>Python values returned by the providers\<close>

text \<open>
  The platform clients return the parsed JSON body of the provider's response as it is.
  Numbers are integers here; a float never appears in a field this development reads.
\<close>

datatype json =
    JNull
  | JBool bool
  | JInt int
  | JStr string
  | JList "json list"
  | JDict "(string \<times> json) list"

text \<open>Python truthiness, as \<open>if x:\<close> and \<open>x or y\<close> test it.\<close>

fun truthy :: "json \<Rightarrow> bool" where
  "truthy JNull = False"
| "truthy (JBool b) = b"
| "truthy (JInt n) = (n \<noteq> 0)"
| "truthy (JStr s) = (s \<noteq> [])"
| "truthy (JList xs) = (xs \<noteq> [])"
| "truthy (JDict kvs) = (kvs \<noteq> [])"

definition py_or :: "json \<Rightarrow> json \<Rightarrow> json" where
  "py_or a b = (if truthy a then a else b)"

text \<open>
  \<open>d.get(key, default)\<close>: defined on a dictionary only; on any other value the
  attribute lookup raises \<open>AttributeError\<close>.
\<close>

fun dict_get :: "json \<Rightarrow> string \<Rightarrow> json \<Rightarrow> exn + json" where
  "dict_get (JDict kvs) k dflt = Inr (case map_of kvs k of Some v \<Rightarrow> v | None \<Rightarrow> dflt)"
| "dict_get JNull k dflt = Inl (OtherError ''AttributeError'')"
| "dict_get (JBool b) k dflt = Inl (OtherError ''AttributeError'')"
| "dict_get (JInt n) k dflt = Inl (OtherError ''AttributeError'')"
| "dict_get (JStr s) k dflt = Inl (OtherError ''AttributeError'')"
| "dict_get (JList xs) k dflt = Inl (OtherError ''AttributeError'')"

text \<open>\<open>d[key]\<close> on the dictionary a client returned: \<open>KeyError\<close> when absent.\<close>

fun dict_item :: "json \<Rightarrow> string \<Rightarrow> exn + json" where
  "dict_item (JDict kvs) k =
     (case map_of kvs k of Some v \<Rightarrow> Inr v | None \<Rightarrow> Inl (OtherError ''KeyError''))"
| "dict_item JNull k = Inl (OtherError ''TypeError'')"
| "dict_item (JBool b) k = Inl (OtherError ''TypeError'')"
| "dict_item (JInt n) k = Inl (OtherError ''TypeError'')"
| "dict_item (JStr s) k = Inl (OtherError ''TypeError'')"
| "dict_item (JList xs) k = Inl (OtherError ''TypeError'')"

text \<open>\<open>items[0]\<close>: the first element of a list or string; anything else raises.\<close>

fun item0 :: "json \<Rightarrow> exn + json" where
  "item0 (JList (x # xs)) = Inr x"
| "item0 (JList []) = Inl (OtherError ''IndexError'')"
| "item0 (JStr (c # cs)) = Inr (JStr [c])"
| "item0 (JStr []) = Inl (OtherError ''IndexError'')"
| "item0 (JDict kvs) = Inl (OtherError ''KeyError'')"
| "item0 JNull = Inl (OtherError ''TypeError'')"
| "item0 (JBool b) = Inl (OtherError ''TypeError'')"
| "item0 (JInt n) = Inl (OtherError ''TypeError'')"

section \<open>The entity and the collaborators\<close>

text \<open>
  One row of the \<open>SocialAccount\<close> table. \<open>id'\<close> is the primary key (the source's
  \<open>id\<close>), \<open>account_id\<close> the provider's identifier. The tokens are stored encrypted.
  Timestamps are microseconds since the epoch. \<open>created_at\<close> and \<open>updated_at\<close> are
  maintained by the table's defaults and are left out.
\<close>

record SocialAccount =
  id' :: string
  user_id :: string
  platform :: string
  account_id :: string
  username :: "string option"
  display_name :: "string option"
  access_token :: string
  refresh_token :: "string option"
  expires_at :: "int option"
  scope :: "string option"
  is_verified :: bool
  last_verified_at :: "int option"

text \<open>
  The dictionary \<open>OAuthService.refresh_token\<close> returns. The source reads
  \<open>token_data["access_token"]\<close> (a \<open>KeyError\<close> when the key is absent),
  \<open>token_data.get("refresh_token", refresh_token)\<close> (the default only when the key is
  absent: a key present with \<open>None\<close> gives \<open>None\<close>) and \<open>token_data.get("expires_at")\<close>.
\<close>

record token_data =
  td_access_token :: "string option"
  td_refresh_token :: "string option option"
  td_expires_at :: "int option"

text \<open>
  What the collaborators outside the source files answer during one operation: the
  cipher behind \<open>SocialAccount.encrypt_token\<close> and the token getters, the database
  session (whether \<open>execute\<close> and \<open>commit\<close> raise, the primary key given to a new
  row), the clock, the platform configuration table, the OAuth service, the HTTP
  transport of the TikTok and YouTube clients (\<open>BaseClient.post\<close> and \<open>get\<close> on the
  profile endpoint), and the Facebook, Instagram and Twitter clients.
\<close>

record env =
  encrypt_token :: "string \<Rightarrow> string"
  decrypt_token :: "string \<Rightarrow> exn + string"
  execute_raises :: "exn option"
  commit_raises :: "exn option"
  generated_id :: string
  utcnow :: int
  supports_refresh_token :: "Platform \<Rightarrow> bool"
  oauth_refresh_token :: "Platform \<Rightarrow> string \<Rightarrow> string \<Rightarrow> string \<Rightarrow> exn + token_data"
  oauth_revoke_token :: "Platform \<Rightarrow> string \<Rightarrow> string \<Rightarrow> string \<Rightarrow> exn option"
  transport :: "Platform \<Rightarrow> string \<Rightarrow> exn + json"
  other_get_user_profile :: "Platform \<Rightarrow> string \<Rightarrow> exn + json"
  other_verify_account_ownership :: "Platform \<Rightarrow> string \<Rightarrow> string \<Rightarrow> exn + bool"

text \<open>
  The state an operation changes: the committed rows of the table in storage order,
  the log, and how many platform clients were created and how many were closed.
\<close>

record world =
  db :: "SocialAccount list"
  logged :: "log_record list"
  clients_created :: nat
  clients_closed :: nat

definition logger :: "level \<Rightarrow> string \<Rightarrow> world \<Rightarrow> world" where
  "logger lvl msg w = w\<lparr>logged := logged w @ [(lvl, msg)]\<rparr>"

text \<open>
  \<open>await self.db.execute(query)\<close> followed by \<open>result.scalars().first()\<close> or
  \<open>.all()\<close>: the rows the \<open>where\<close> clause selects, unless the session raises.
\<close>

definition execute_first :: "env \<Rightarrow> (SocialAccount \<Rightarrow> bool) \<Rightarrow> world \<Rightarrow> exn + SocialAccount option" where
  "execute_first e P w =
     (case execute_raises e of Some exc \<Rightarrow> Inl exc | None \<Rightarrow> Inr (find P (db w)))"

definition execute_all :: "env \<Rightarrow> (SocialAccount \<Rightarrow> bool) \<Rightarrow> world \<Rightarrow> exn + SocialAccount list" where
  "execute_all e P w =
     (case execute_raises e of Some exc \<Rightarrow> Inl exc | None \<Rightarrow> Inr (filter P (db w)))"

text \<open>
  The session's pending changes are a copy of the table: a loaded row that was mutated
  replaces the row with its primary key, \<open>db.add\<close> appends, \<open>db.delete\<close> removes.
  \<open>commit\<close> makes the pending table the stored one, or raises and stores nothing
  (the handlers then call \<open>rollback\<close>, which discards the pending changes).
\<close>

definition pending_update :: "SocialAccount \<Rightarrow> SocialAccount list \<Rightarrow> SocialAccount list" where
  "pending_update a rows = map (\<lambda>r. if id' r = id' a then a else r) rows"

definition pending_add :: "SocialAccount \<Rightarrow> SocialAccount list \<Rightarrow> SocialAccount list" where
  "pending_add a rows = rows @ [a]"

definition pending_delete :: "SocialAccount \<Rightarrow> SocialAccount list \<Rightarrow> SocialAccount list" where
  "pending_delete a rows = filter (\<lambda>r. id' r \<noteq> id' a) rows"

definition commit :: "env \<Rightarrow> SocialAccount list \<Rightarrow> world \<Rightarrow> exn + world" where
  "commit e pending w =
     (case commit_raises e of Some exc \<Rightarrow> Inl exc | None \<Rightarrow> Inr (w\<lparr>db := pending\<rparr>))"

text \<open>
  The handler pair every public operation ends with:
  \<open>except ValueError: raise\<close> and
  \<open>except Exception as exc: rollback; logger.error(msg); raise ValueError(prefix + str(exc))\<close>.
\<close>

definition reraise :: "string \<Rightarrow> string \<Rightarrow> exn \<Rightarrow> world \<Rightarrow> (exn + 'a) \<times> world" where
  "reraise msg prefix exc w =
     (if is_ValueError exc then (Inl exc, w)
      else (Inl (ValueError (prefix @ str exc)), logger ERROR msg w))"

text \<open>
  Modelled from the spec: the methods of the \<open>SocialAccount\<close> model class
  (\<open>src/social_media/models/social_account.py\<close>, not among the source files).
  \<open>update_tokens\<close> overlays the access token, the refresh token and the expiry, the
  tokens encrypted; \<open>mark_verified\<close> marks the link verified and stamps
  \<open>last_verified_at\<close>; \<open>get_access_token\<close> and \<open>get_refresh_token\<close> decrypt the stored
  tokens (no refresh token stored gives \<open>None\<close>).
\<close>

definition update_tokens :: "env \<Rightarrow> SocialAccount \<Rightarrow> string \<Rightarrow> string option \<Rightarrow> int option \<Rightarrow> SocialAccount" where
  "update_tokens e a access refresh expires =
     a\<lparr>access_token := encrypt_token e access,
       refresh_token := map_option (encrypt_token e) refresh,
       expires_at := expires\<rparr>"

definition mark_verified :: "env \<Rightarrow> SocialAccount \<Rightarrow> SocialAccount" where
  "mark_verified e a = a\<lparr>is_verified := True, last_verified_at := Some (utcnow e)\<rparr>"

definition get_access_token :: "env \<Rightarrow> SocialAccount \<Rightarrow> exn + string" where
  "get_access_token e a = decrypt_token e (access_token a)"

definition get_refresh_token :: "env \<Rightarrow> SocialAccount \<Rightarrow> exn + string option" where
  "get_refresh_token e a =
     (case refresh_token a of
        None \<Rightarrow> Inr None
      | Some c \<Rightarrow> (case decrypt_token e c of Inl exc \<Rightarrow> Inl exc | Inr t \<Rightarrow> Inr (Some t)))"

section \<open>Platform clients\<close>

text \<open>
  Sequencing of calls that may raise: the first exception ends the \<open>try\<close> block.
\<close>

definition and_then :: "exn + 'a \<Rightarrow> ('a \<Rightarrow> exn + 'b) \<Rightarrow> exn + 'b" where
  "and_then m f = (case m of Inl exc \<Rightarrow> Inl exc | Inr x \<Rightarrow> f x)"

text \<open>
  A client instance holds its platform and the decrypted access token. The service calls
  \<open>get_user_profile()\<close> and \<open>verify_account_ownership\<close> with no \<open>user_id\<close>, so
  \<open>transport e p token\<close> is the provider's answer about the authenticated identity:
  \<open>POST /user/info/\<close> for TikTok, \<open>GET /channels?mine=true\<close> for YouTube.
  A client method returns its result (or the exception it raises) together with the
  records it logs.
\<close>

type_synonym client = "Platform \<times> string"

type_synonym 'a call = "(exn + 'a) \<times> log_record list"

subsection \<open>\<open>tiktok_client.py\<close>\<close>

text \<open>
  \<open>TikTokClient.get_user_profile\<close> returns the response as received; the nested
  \<open>data.user\<close> record is read for the log call only, and reading it can raise.
\<close>

definition tiktok_get_user_profile :: "env \<Rightarrow> client \<Rightarrow> json call" where
  "tiktok_get_user_profile e c =
     (case and_then (transport e TIKTOK (snd c)) (\<lambda>response.
           and_then (dict_get response ''data'' (JDict [])) (\<lambda>data.
           and_then (dict_get data ''user'' (JDict [])) (\<lambda>user_data.
           and_then (dict_get user_data ''open_id'' JNull) (\<lambda>open_id.
           and_then (dict_get user_data ''display_name'' JNull) (\<lambda>display_name'.
           Inr response))))) of
        Inr response \<Rightarrow> (Inr response, [(INFO, ''TikTok user profile retrieved'')])
      | Inl exc \<Rightarrow>
          (Inl (PlatformAPIError (''Failed to get user profile: '' @ str exc)),
           [(ERROR, ''Failed to get TikTok user profile'')]))"

definition tiktok_verify_account_ownership :: "env \<Rightarrow> client \<Rightarrow> string \<Rightarrow> bool call" where
  "tiktok_verify_account_ownership e c account_id_arg =
     (case tiktok_get_user_profile e c of (r, logs) \<Rightarrow>
        (case and_then r (\<lambda>profile.
              and_then (dict_get profile ''data'' (JDict [])) (\<lambda>data.
              and_then (dict_get data ''user'' (JDict [])) (\<lambda>user_data.
              and_then (dict_get user_data ''open_id'' JNull) (\<lambda>open_id.
              Inr (open_id = JStr account_id_arg))))) of
           Inr is_owner \<Rightarrow>
             (Inr is_owner, logs @ [(INFO, ''TikTok account ownership verification'')])
         | Inl exc \<Rightarrow>
             (Inr False, logs @ [(ERROR, ''Failed to verify TikTok account ownership'')])))"

definition tiktok_verify_follow :: "client \<Rightarrow> string \<Rightarrow> bool call" where
  "tiktok_verify_follow c target_user_id =
     (Inr False, [(WARNING, ''TikTok follow verification not supported by API'')])"

definition tiktok_verify_video_engagement :: "client \<Rightarrow> string \<Rightarrow> string \<Rightarrow> bool call" where
  "tiktok_verify_video_engagement c video_id engagement_type =
     (Inr False, [(WARNING, ''TikTok engagement verification not fully supported by API'')])"

text \<open>
  Modelled from the spec: \<open>TikTokClient\<close> defines no \<open>verify_comment\<close> of its own; a call
  resolves to the base class \<open>BaseClient\<close>
  (\<open>src/social_media/services/platform_clients/base_client.py\<close>, not among the source
  files). The spec's capability contract: a provider that cannot support a check returns
  \<open>false\<close> deterministically, not an error.
\<close>

definition tiktok_verify_comment :: "client \<Rightarrow> string \<Rightarrow> bool call" where
  "tiktok_verify_comment c video_id = (Inr False, [])"

subsection \<open>\<open>youtube_client.py\<close>\<close>

definition youtube_get_user_profile :: "env \<Rightarrow> client \<Rightarrow> json call" where
  "youtube_get_user_profile e c =
     (case and_then (transport e YOUTUBE (snd c)) (\<lambda>response.
           and_then (dict_get response ''items'' (JList [])) (\<lambda>items.
           if truthy items then
             and_then (item0 items) (\<lambda>channel_data.
             and_then (dict_get channel_data ''snippet'' (JDict [])) (\<lambda>snippet.
             and_then (dict_get channel_data ''id'' JNull) (\<lambda>channel_id.
             and_then (dict_get snippet ''title'' JNull) (\<lambda>title.
             Inr (response, [(INFO, ''YouTube channel profile retrieved'')])))))
           else Inr (response, []))) of
        Inr (response, logs) \<Rightarrow> (Inr response, logs)
      | Inl exc \<Rightarrow>
          (Inl (PlatformAPIError (''Failed to get channel profile: '' @ str exc)),
           [(ERROR, ''Failed to get YouTube channel profile'')]))"

definition youtube_verify_account_ownership :: "env \<Rightarrow> client \<Rightarrow> string \<Rightarrow> bool call" where
  "youtube_verify_account_ownership e c account_id_arg =
     (case youtube_get_user_profile e c of (r, logs) \<Rightarrow>
        (case and_then r (\<lambda>profile.
              and_then (dict_get profile ''items'' (JList [])) (\<lambda>items.
              if \<not> truthy items then Inr None
              else
                and_then (item0 items) (\<lambda>channel_data.
                and_then (dict_get channel_data ''id'' JNull) (\<lambda>channel_id.
                Inr (Some (channel_id = JStr account_id_arg)))))) of
           Inr None \<Rightarrow>
             (Inr False, logs @ [(WARNING, ''No channel found for authenticated user'')])
         | Inr (Some is_owner) \<Rightarrow>
             (Inr is_owner, logs @ [(INFO, ''YouTube account ownership verification'')])
         | Inl exc \<Rightarrow>
             (Inr False, logs @ [(ERROR, ''Failed to verify YouTube account ownership'')])))"

definition youtube_verify_comment :: "client \<Rightarrow> string \<Rightarrow> bool call" where
  "youtube_verify_comment c video_id =
     (Inr False, [(WARNING, ''YouTube comment verification not fully supported'')])"

subsection \<open>Dispatch on the client's class\<close>

text \<open>
  \<open>AccountService._create_platform_client\<close>: one client class per member of the enum;
  the final \<open>else\<close> branch (\<open>None\<close>) is reached by no member. The constructors of the
  TikTok and YouTube clients log; the other three classes are not among the source
  files and answer through \<open>other_get_user_profile\<close> and
  \<open>other_verify_account_ownership\<close>. \<open>close\<close> releases the client's transport.
\<close>

definition emit :: "log_record list \<Rightarrow> world \<Rightarrow> world" where
  "emit logs w = w\<lparr>logged := logged w @ logs\<rparr>"

definition create_platform_client :: "Platform \<Rightarrow> string \<Rightarrow> world \<Rightarrow> client option \<times> world" where
  "create_platform_client p access_token_arg w =
     (let w1 = w\<lparr>clients_created := clients_created w + 1\<rparr> in
      case p of
        FACEBOOK \<Rightarrow> (Some (FACEBOOK, access_token_arg), w1)
      | INSTAGRAM \<Rightarrow> (Some (INSTAGRAM, access_token_arg), w1)
      | TWITTER \<Rightarrow> (Some (TWITTER, access_token_arg), w1)
      | TIKTOK \<Rightarrow> (Some (TIKTOK, access_token_arg), logger INFO ''TikTok client initialized'' w1)
      | YOUTUBE \<Rightarrow> (Some (YOUTUBE, access_token_arg), logger INFO ''YouTube client initialized'' w1))"

definition close :: "client \<Rightarrow> world \<Rightarrow> world" where
  "close c w = w\<lparr>clients_closed := clients_closed w + 1\<rparr>"

definition get_user_profile :: "env \<Rightarrow> client \<Rightarrow> json call" where
  "get_user_profile e c =
     (case fst c of
        TIKTOK \<Rightarrow> tiktok_get_user_profile e c
      | YOUTUBE \<Rightarrow> youtube_get_user_profile e c
      | FACEBOOK \<Rightarrow> (other_get_user_profile e FACEBOOK (snd c), [])
      | INSTAGRAM \<Rightarrow> (other_get_user_profile e INSTAGRAM (snd c), [])
      | TWITTER \<Rightarrow> (other_get_user_profile e TWITTER (snd c), []))"

definition verify_account_ownership :: "env \<Rightarrow> client \<Rightarrow> string \<Rightarrow> bool call" where
  "verify_account_ownership e c account_id_arg =
     (case fst c of
        TIKTOK \<Rightarrow> tiktok_verify_account_ownership e c account_id_arg
      | YOUTUBE \<Rightarrow> youtube_verify_account_ownership e c account_id_arg
      | FACEBOOK \<Rightarrow> (other_verify_account_ownership e FACEBOOK (snd c) account_id_arg, [])
      | INSTAGRAM \<Rightarrow> (other_verify_account_ownership e INSTAGRAM (snd c) account_id_arg, [])
      | TWITTER \<Rightarrow> (other_verify_account_ownership e TWITTER (snd c) account_id_arg, []))"

section \<open>\<open>account_service.py\<close>\<close>

text \<open>
  \<open>str.lower()\<close> and \<open>", ".join(...)\<close>. Strings are byte strings here, so \<open>lower\<close>
  maps the ASCII capitals and \<open>user_id[:8]\<close> is \<open>take 8\<close>.
\<close>

definition lower_char :: "char \<Rightarrow> char" where
  "lower_char c =
     (case map_of (zip ''ABCDEFGHIJKLMNOPQRSTUVWXYZ'' ''abcdefghijklmnopqrstuvwxyz'') c of
        Some l \<Rightarrow> l
      | None \<Rightarrow> c)"

definition lower :: "string \<Rightarrow> string" where
  "lower s = map lower_char s"

fun join :: "string \<Rightarrow> string list \<Rightarrow> string" where
  "join sep [] = []"
| "join sep [x] = x"
| "join sep (x # y # ys) = x @ sep @ join sep (y # ys)"

text \<open>\<open>if s:\<close> on an \<open>Optional[str]\<close>: neither \<open>None\<close> nor the empty string.\<close>

fun nonempty :: "string option \<Rightarrow> bool" where
  "nonempty None = False"
| "nonempty (Some s) = (s \<noteq> [])"

subsection \<open>Lookups\<close>

definition check_duplicate_account :: "env \<Rightarrow> Platform \<Rightarrow> string \<Rightarrow> string \<Rightarrow> world \<Rightarrow> exn + SocialAccount option" where
  "check_duplicate_account e platform_arg account_id_arg user_id_arg w =
     execute_first e
       (\<lambda>r. platform r = platform_value platform_arg \<and> account_id r = account_id_arg) w"

definition get_account_by_id :: "env \<Rightarrow> string \<Rightarrow> world \<Rightarrow> exn + SocialAccount option" where
  "get_account_by_id e account_id_arg w = execute_first e (\<lambda>r. id' r = account_id_arg) w"

text \<open>
  \<open>get_user_accounts\<close> wraps every exception, a \<open>ValueError\<close> included, and does not
  roll back.
\<close>

definition get_user_accounts :: "env \<Rightarrow> string \<Rightarrow> Platform option \<Rightarrow> bool \<Rightarrow> world \<Rightarrow> (exn + SocialAccount list) \<times> world" where
  "get_user_accounts e user_id_arg platform_arg verified_only w =
     (case execute_all e
             (\<lambda>r. user_id r = user_id_arg
                \<and> (case platform_arg of None \<Rightarrow> True | Some p \<Rightarrow> platform r = platform_value p)
                \<and> (if verified_only then is_verified r else True)) w of
        Inr accounts \<Rightarrow> (Inr accounts, logger INFO ''Retrieved user accounts'' w)
      | Inl exc \<Rightarrow>
          (Inl (ValueError (''Failed to get user accounts: '' @ str exc)),
           logger ERROR ''Failed to get user accounts'' w))"

subsection \<open>\<open>link_account\<close>\<close>

definition link_account :: "env \<Rightarrow> string \<Rightarrow> Platform \<Rightarrow> string \<Rightarrow> string \<Rightarrow> string option \<Rightarrow> int option \<Rightarrow> string option \<Rightarrow> string option \<Rightarrow> string option \<Rightarrow> world \<Rightarrow> (exn + SocialAccount) \<times> world" where
  "link_account e user_id_arg platform_arg account_id_arg access_token_arg refresh_token_arg
       expires_at_arg scope_arg username_arg display_name_arg w =
     (case check_duplicate_account e platform_arg account_id_arg user_id_arg w of
        Inl exc \<Rightarrow> reraise ''Failed to link account'' ''Failed to link account: '' exc w
      | Inr (Some existing) \<Rightarrow>
          if user_id existing \<noteq> user_id_arg then
            (Inl (ValueError (''Account '' @ account_id_arg @ '' on '' @ platform_value platform_arg
                    @ '' is already linked to another user'')),
             logger ERROR ''Account already linked to different user'' w)
          else
            (let w1 = logger INFO ''Updating existing account link'' w;
                 existing' = (update_tokens e existing access_token_arg refresh_token_arg expires_at_arg)
                               \<lparr>scope := scope_arg, username := username_arg,
                                display_name := display_name_arg\<rparr>
             in case commit e (pending_update existing' (db w1)) w1 of
                  Inl exc \<Rightarrow> reraise ''Failed to link account'' ''Failed to link account: '' exc w1
                | Inr w2 \<Rightarrow> (Inr existing', logger INFO ''Account link updated successfully'' w2))
      | Inr None \<Rightarrow>
          (let encrypted_access_token = encrypt_token e access_token_arg;
               encrypted_refresh_token =
                 (if nonempty refresh_token_arg then map_option (encrypt_token e) refresh_token_arg
                  else None);
               account = \<lparr>id' = generated_id e, user_id = user_id_arg,
                          platform = platform_value platform_arg, account_id = account_id_arg,
                          username = username_arg, display_name = display_name_arg,
                          access_token = encrypted_access_token,
                          refresh_token = encrypted_refresh_token, expires_at = expires_at_arg,
                          scope = scope_arg, is_verified = False, last_verified_at = None\<rparr>
           in case commit e (pending_add account (db w)) w of
                Inl exc \<Rightarrow> reraise ''Failed to link account'' ''Failed to link account: '' exc w
              | Inr w1 \<Rightarrow> (Inr account, logger INFO ''Account linked successfully'' w1)))"

subsection \<open>\<open>verify_account\<close>\<close>

text \<open>
  The client is closed by the statement before \<open>return is_verified\<close>; the function has
  no \<open>finally\<close> clause.
\<close>

definition verify_account :: "env \<Rightarrow> string \<Rightarrow> string \<Rightarrow> string \<Rightarrow> world \<Rightarrow> (exn + bool) \<times> world" where
  "verify_account e account_id_arg client_id client_secret w =
     (case get_account_by_id e account_id_arg w of
        Inl exc \<Rightarrow> reraise ''Failed to verify account'' ''Failed to verify account: '' exc w
      | Inr None \<Rightarrow>
          (Inl (ValueError (''Account '' @ account_id_arg @ '' not found'')),
           logger ERROR ''Account not found for verification'' w)
      | Inr (Some account) \<Rightarrow>
          (case and_then (Platform_of (platform account)) (\<lambda>platform'.
                and_then (get_access_token e account) (\<lambda>access_token'.
                Inr (platform', access_token'))) of
             Inl exc \<Rightarrow> reraise ''Failed to verify account'' ''Failed to verify account: '' exc w
           | Inr (platform', access_token') \<Rightarrow>
               (case create_platform_client platform' access_token' w of
                  (None, w1) \<Rightarrow>
                    (Inl (ValueError (''Unsupported platform: '' @ platform_value platform')),
                     logger ERROR ''Failed to create platform client for verification'' w1)
                | (Some client, w1) \<Rightarrow>
                    (case verify_account_ownership e client (account_id account) of
                       (Inl exc, logs) \<Rightarrow>
                         reraise ''Failed to verify account'' ''Failed to verify account: '' exc
                           (emit logs w1)
                     | (Inr True, logs) \<Rightarrow>
                         (let w2 = emit logs w1 in
                          case commit e (pending_update (mark_verified e account) (db w2)) w2 of
                            Inl exc \<Rightarrow>
                              reraise ''Failed to verify account'' ''Failed to verify account: '' exc w2
                          | Inr w3 \<Rightarrow>
                              (Inr True, close client (logger INFO ''Account verified successfully'' w3)))
                     | (Inr False, logs) \<Rightarrow>
                         (Inr False,
                          close client (logger WARNING ''Account verification failed'' (emit logs w1)))))))"

subsection \<open>\<open>unlink_account\<close> and \<open>disconnect_account\<close>\<close>

text \<open>
  The inner \<open>try\<close> block of \<open>unlink_account\<close>: whatever is raised while the token is
  revoked is logged as a warning and goes no further.
\<close>

definition revoke_on_unlink :: "env \<Rightarrow> SocialAccount \<Rightarrow> string \<Rightarrow> string \<Rightarrow> world \<Rightarrow> world" where
  "revoke_on_unlink e account client_id client_secret w =
     (case and_then (Platform_of (platform account)) (\<lambda>platform'.
           and_then (get_access_token e account) (\<lambda>access_token'.
           case oauth_revoke_token e platform' access_token' client_id client_secret of
             Some exc \<Rightarrow> Inl exc
           | None \<Rightarrow> Inr ())) of
        Inr u \<Rightarrow> logger INFO ''OAuth token revoked'' w
      | Inl exc \<Rightarrow> logger WARNING ''Failed to revoke OAuth token'' w)"

definition unlink_account :: "env \<Rightarrow> string \<Rightarrow> string \<Rightarrow> string option \<Rightarrow> string option \<Rightarrow> bool \<Rightarrow> world \<Rightarrow> (exn + bool) \<times> world" where
  "unlink_account e account_id_arg user_id_arg client_id client_secret revoke_token w =
     (case get_account_by_id e account_id_arg w of
        Inl exc \<Rightarrow> reraise ''Failed to unlink account'' ''Failed to unlink account: '' exc w
      | Inr None \<Rightarrow>
          (Inl (ValueError (''Account '' @ account_id_arg @ '' not found'')),
           logger ERROR ''Account not found for unlinking'' w)
      | Inr (Some account) \<Rightarrow>
          if user_id account \<noteq> user_id_arg then
            (Inl (ValueError ''Unauthorized: Account belongs to different user''),
             logger ERROR ''Unauthorized account unlink attempt'' w)
          else
            (let w1 = (case (client_id, client_secret) of
                         (Some cid, Some csec) \<Rightarrow>
                           if revoke_token \<and> cid \<noteq> [] \<and> csec \<noteq> []
                           then revoke_on_unlink e account cid csec w else w
                       | (Some cid, None) \<Rightarrow> w
                       | (None, csec) \<Rightarrow> w)
             in case commit e (pending_delete account (db w1)) w1 of
                  Inl exc \<Rightarrow> reraise ''Failed to unlink account'' ''Failed to unlink account: '' exc w1
                | Inr w2 \<Rightarrow> (Inr True, logger INFO ''Account unlinked successfully'' w2)))"

text \<open>
  \<open>disconnect_account\<close> returns a copy of the row made before the deletion; the copy has
  every field of the row.
\<close>

definition disconnect_account :: "env \<Rightarrow> string \<Rightarrow> string \<Rightarrow> world \<Rightarrow> (exn + SocialAccount) \<times> world" where
  "disconnect_account e user_id_arg platform_arg w =
     (let platform_lower = lower platform_arg in
      case execute_first e (\<lambda>r. user_id r = user_id_arg \<and> platform r = platform_lower) w of
        Inl exc \<Rightarrow> reraise ''Failed to disconnect account'' ''Failed to disconnect account: '' exc w
      | Inr None \<Rightarrow>
          (Inl (ValueError (''No '' @ platform_arg @ '' account found for user'')),
           logger ERROR ''Account not found for disconnection'' w)
      | Inr (Some account) \<Rightarrow>
          (let account_copy = account in
           case commit e (pending_delete account (db w)) w of
             Inl exc \<Rightarrow>
               reraise ''Failed to disconnect account'' ''Failed to disconnect account: '' exc w
           | Inr w1 \<Rightarrow> (Inr account_copy, logger INFO ''Account disconnected successfully'' w1)))"

subsection \<open>\<open>link_manual_account\<close>\<close>

definition link_manual_account :: "env \<Rightarrow> string \<Rightarrow> string \<Rightarrow> string \<Rightarrow> world \<Rightarrow> (exn + SocialAccount) \<times> world" where
  "link_manual_account e user_id_arg platform_arg username_arg w =
     (let platform_lower = lower platform_arg in
      case Platform_of platform_lower of
        Inl exc \<Rightarrow>
          (let valid_platforms = join '', '' (map platform_value all_platforms) in
           (Inl (ValueError (''Invalid platform: '' @ platform_arg @ ''. Valid: '' @ valid_platforms)), w))
      | Inr platform_enum \<Rightarrow>
          (case get_user_accounts e user_id_arg (Some platform_enum) False w of
             (Inl exc, w1) \<Rightarrow>
               reraise ''Failed to link manual account'' ''Failed to link account: '' exc w1
           | (Inr existing, w1) \<Rightarrow>
               if existing \<noteq> [] then
                 (Inl (ValueError (''A '' @ platform_arg @ '' account is already connected'')),
                  logger WARNING ''Account already exists for platform'' w1)
               else
                 (let placeholder_token = encrypt_token e ''manual_link_placeholder'';
                      account = \<lparr>id' = generated_id e, user_id = user_id_arg,
                                 platform = platform_lower,
                                 account_id = ''manual_'' @ username_arg @ ''_'' @ take 8 user_id_arg,
                                 username = Some username_arg, display_name = Some username_arg,
                                 access_token = placeholder_token, refresh_token = None,
                                 expires_at = None, scope = None, is_verified = False,
                                 last_verified_at = None\<rparr>
                  in case commit e (pending_add account (db w1)) w1 of
                       Inl exc \<Rightarrow>
                         reraise ''Failed to link manual account'' ''Failed to link account: '' exc w1
                     | Inr w2 \<Rightarrow>
                         (Inr account, logger INFO ''Manual account linked successfully'' w2))))"

subsection \<open>\<open>refresh_all_tokens\<close>\<close>

text \<open>The dictionary of counters the batch returns.\<close>

record stats =
  success :: nat
  failed :: nat
  skipped :: nat

text \<open>
  The body of the loop's \<open>try\<close> block for one candidate: \<open>Inr None\<close> is a
  \<open>continue\<close> (skipped), \<open>Inr (Some a)\<close> the account with its tokens replaced, \<open>Inl\<close>
  an exception raised anywhere in the block.
\<close>

definition refresh_one :: "env \<Rightarrow> string \<Rightarrow> string \<Rightarrow> SocialAccount \<Rightarrow> exn + SocialAccount option" where
  "refresh_one e client_id client_secret account =
     and_then (Platform_of (platform account)) (\<lambda>platform'.
       if \<not> supports_refresh_token e platform' then Inr None
       else
         and_then (get_refresh_token e account) (\<lambda>refresh_token'.
           case refresh_token' of
             None \<Rightarrow> Inr None
           | Some rt \<Rightarrow>
               if rt = [] then Inr None
               else
                 and_then (oauth_refresh_token e platform' rt client_id client_secret) (\<lambda>td.
                   case td_access_token td of
                     None \<Rightarrow> Inl (OtherError ''KeyError'')
                   | Some new_access \<Rightarrow>
                       Inr (Some (update_tokens e account new_access
                                    (case td_refresh_token td of None \<Rightarrow> Some rt | Some r \<Rightarrow> r)
                                    (td_expires_at td))))))"

fun refresh_loop :: "env \<Rightarrow> string \<Rightarrow> string \<Rightarrow> SocialAccount list \<Rightarrow> stats \<times> SocialAccount list \<times> world \<Rightarrow> stats \<times> SocialAccount list \<times> world" where
  "refresh_loop e client_id client_secret [] acc = acc"
| "refresh_loop e client_id client_secret (account # accounts) (st, pending, w) =
     refresh_loop e client_id client_secret accounts
       (case refresh_one e client_id client_secret account of
          Inr None \<Rightarrow> (st\<lparr>skipped := skipped st + 1\<rparr>, pending, w)
        | Inr (Some account') \<Rightarrow>
            (st\<lparr>success := success st + 1\<rparr>, pending_update account' pending,
             logger INFO ''Token refreshed'' w)
        | Inl exc \<Rightarrow>
            (st\<lparr>failed := failed st + 1\<rparr>, pending, logger ERROR ''Failed to refresh token'' w))"

text \<open>
  The threshold \<open>datetime.utcnow() + timedelta(hours=hours_before_expiry)\<close>, in
  microseconds. The \<open>timedelta\<close> constructor raises \<open>OverflowError\<close> unless the days
  of the difference, \<open>h div 24\<close>, have magnitude at most 999999999; the sum raises
  \<open>OverflowError\<close> outside \<open>datetime.min .. datetime.max\<close> (the years 1 to 9999).
\<close>

definition datetime_min :: int where
  "datetime_min = - 62135596800000000"

definition datetime_max :: int where
  "datetime_max = 253402300799999999"

definition timedelta_hours :: "int \<Rightarrow> exn + int" where
  "timedelta_hours h =
     (if - 999999999 \<le> h div 24 \<and> h div 24 \<le> 999999999 then Inr (h * 3600000000)
      else Inl (OtherError ''OverflowError''))"

definition datetime_add :: "int \<Rightarrow> int \<Rightarrow> exn + int" where
  "datetime_add t d =
     (if datetime_min \<le> t + d \<and> t + d \<le> datetime_max then Inr (t + d)
      else Inl (OtherError ''OverflowError''))"

definition refresh_threshold :: "env \<Rightarrow> int \<Rightarrow> exn + int" where
  "refresh_threshold e hours_before_expiry =
     and_then (timedelta_hours hours_before_expiry) (datetime_add (utcnow e))"

text \<open>
  The query's \<open>where\<close> clause: \<open>expires_at\<close> set and not after the threshold, and a
  refresh token stored.
\<close>

definition refresh_candidate :: "int \<Rightarrow> SocialAccount \<Rightarrow> bool" where
  "refresh_candidate threshold r =
     ((case expires_at r of None \<Rightarrow> False | Some t \<Rightarrow> t \<le> threshold) \<and> refresh_token r \<noteq> None)"

text \<open>
  The outer handler of \<open>refresh_all_tokens\<close> is \<open>except Exception\<close> alone: it wraps a
  \<open>ValueError\<close> as well.
\<close>

definition refresh_all_tokens :: "env \<Rightarrow> string \<Rightarrow> string \<Rightarrow> int \<Rightarrow> world \<Rightarrow> (exn + stats) \<times> world" where
  "refresh_all_tokens e client_id client_secret hours_before_expiry w =
     (case refresh_threshold e hours_before_expiry of
        Inl exc \<Rightarrow>
          (Inl (ValueError (''Failed to refresh tokens: '' @ str exc)),
           logger ERROR ''Failed to refresh tokens'' w)
      | Inr threshold \<Rightarrow>
          (case execute_all e (refresh_candidate threshold) w of
             Inl exc \<Rightarrow>
               (Inl (ValueError (''Failed to refresh tokens: '' @ str exc)),
                logger ERROR ''Failed to refresh tokens'' w)
           | Inr accounts \<Rightarrow>
               (case refresh_loop e client_id client_secret accounts
                       (\<lparr>success = 0, failed = 0, skipped = 0\<rparr>, db w, w) of
                  (st, pending, w1) \<Rightarrow>
                    (case commit e pending w1 of
                       Inl exc \<Rightarrow>
                         (Inl (ValueError (''Failed to refresh tokens: '' @ str exc)),
                          logger ERROR ''Failed to refresh tokens'' w1)
                     | Inr w2 \<Rightarrow> (Inr st, logger INFO ''Token refresh batch completed'' w2)))))"

subsection \<open>\<open>refresh_account\<close>\<close>

text \<open>
  A profile value assigned to \<open>username\<close> or \<open>display_name\<close> is stored in a text
  column: a string is stored, any other value is refused by the database when the
  session is flushed.
\<close>

fun column_text :: "json \<Rightarrow> exn + string" where
  "column_text (JStr s) = Inr s"
| "column_text JNull = Inl (OtherError ''StatementError'')"
| "column_text (JBool b) = Inl (OtherError ''StatementError'')"
| "column_text (JInt n) = Inl (OtherError ''StatementError'')"
| "column_text (JList xs) = Inl (OtherError ''StatementError'')"
| "column_text (JDict kvs) = Inl (OtherError ''StatementError'')"

text \<open>
  The two conditional assignments of \<open>refresh_account\<close>, on the dictionary the client
  returned.
\<close>

definition overlay_profile :: "json \<Rightarrow> SocialAccount \<Rightarrow> exn + SocialAccount" where
  "overlay_profile profile_data account =
     and_then (dict_get profile_data ''username'' JNull) (\<lambda>u.
     and_then (if truthy u
               then and_then (column_text u) (\<lambda>s. Inr (account\<lparr>username := Some s\<rparr>))
               else Inr account) (\<lambda>account1.
     and_then (dict_get profile_data ''name'' JNull) (\<lambda>n.
     and_then (dict_get profile_data ''display_name'' JNull) (\<lambda>d.
     if truthy (py_or n d)
     then and_then (column_text (py_or n d)) (\<lambda>s. Inr (account1\<lparr>display_name := Some s\<rparr>))
     else Inr account1))))"

text \<open>The \<open>try\<close> block that \<open>finally: await client.close()\<close> guards.\<close>

definition refresh_account_body :: "env \<Rightarrow> client \<Rightarrow> SocialAccount \<Rightarrow> world \<Rightarrow> (exn + SocialAccount) \<times> world" where
  "refresh_account_body e client account w =
     (case get_user_profile e client of
        (Inl exc, logs) \<Rightarrow> (Inl exc, emit logs w)
      | (Inr profile_data, logs) \<Rightarrow>
          (let w1 = emit logs w in
           case overlay_profile profile_data account of
             Inl exc \<Rightarrow> (Inl exc, w1)
           | Inr account' \<Rightarrow>
               (case commit e (pending_update account' (db w1)) w1 of
                  Inl exc \<Rightarrow> (Inl exc, w1)
                | Inr w2 \<Rightarrow> (Inr account', logger INFO ''Account refreshed successfully'' w2))))"

definition refresh_account :: "env \<Rightarrow> string \<Rightarrow> Platform \<Rightarrow> world \<Rightarrow> (exn + SocialAccount) \<times> world" where
  "refresh_account e user_id_arg platform_arg w =
     (case get_user_accounts e user_id_arg (Some platform_arg) False w of
        (Inl exc, w1) \<Rightarrow>
          reraise ''Failed to refresh account'' ''Failed to refresh account: '' exc w1
      | (Inr [], w1) \<Rightarrow>
          (Inl (ValueError (''No '' @ platform_value platform_arg @ '' account found for user'')),
           logger ERROR ''Account not found for refresh'' w1)
      | (Inr (account # rest), w1) \<Rightarrow>
          (case get_access_token e account of
             Inl exc \<Rightarrow>
               reraise ''Failed to refresh account'' ''Failed to refresh account: '' exc w1
           | Inr access_token' \<Rightarrow>
               (case create_platform_client platform_arg access_token' w1 of
                  (None, w2) \<Rightarrow>
                    (Inl (ValueError (''Unsupported platform: '' @ platform_value platform_arg)),
                     logger ERROR ''Failed to create platform client for refresh'' w2)
                | (Some client, w2) \<Rightarrow>
                    (case refresh_account_body e client account w2 of
                       (Inl exc, w3) \<Rightarrow>
                         reraise ''Failed to refresh account'' ''Failed to refresh account: '' exc
                           (close client w3)
                     | (Inr account', w3) \<Rightarrow> (Inr account', close client w3)))))"

section \<open>Properties of the store and example inputs\<close>

text \<open>
  The uniqueness invariant of the spec: no two rows share \<open>(platform, account_id)\<close>.
  \<open>link_count\<close> counts the rows of one \<open>(user, platform, account_id)\<close> triple.
\<close>

definition link_key :: "SocialAccount \<Rightarrow> string \<times> string" where
  "link_key r = (platform r, account_id r)"

definition unique_links :: "SocialAccount list \<Rightarrow> bool" where
  "unique_links rows = distinct (map link_key rows)"

definition link_count :: "string \<Rightarrow> string \<Rightarrow> string \<Rightarrow> SocialAccount list \<Rightarrow> nat" where
  "link_count uid p aid rows =
     length (filter (\<lambda>r. user_id r = uid \<and> platform r = p \<and> account_id r = aid) rows)"

text \<open>
  Collaborators that all succeed: a cipher that prefixes \<open>enc:\<close>, a session that
  neither fails to execute nor to commit, and providers that answer.
\<close>

definition demo_env :: env where
  "demo_env =
     \<lparr>encrypt_token = (\<lambda>s. ''enc:'' @ s),
      decrypt_token = (\<lambda>c. Inr (drop 4 c)),
      execute_raises = None,
      commit_raises = None,
      generated_id = ''row-new'',
      utcnow = 1000,
      supports_refresh_token = (\<lambda>p. True),
      oauth_refresh_token = (\<lambda>p rt cid cs.
         Inr \<lparr>td_access_token = Some (''new-'' @ rt), td_refresh_token = None,
              td_expires_at = Some 9000\<rparr>),
      oauth_revoke_token = (\<lambda>p t cid cs. None),
      transport = (\<lambda>p t. Inr (JDict [])),
      other_get_user_profile = (\<lambda>p t. Inr (JDict [])),
      other_verify_account_ownership = (\<lambda>p t a. Inr True)\<rparr>"

definition acct_1 :: SocialAccount where
  "acct_1 =
     \<lparr>id' = ''row-1'', user_id = ''u1'', platform = ''twitter'', account_id = ''acct_1'',
      username = Some ''bob'', display_name = Some ''Bob B'', access_token = ''enc:tok1'',
      refresh_token = Some ''enc:ref1'', expires_at = Some 2000, scope = Some ''read'',
      is_verified = False, last_verified_at = None\<rparr>"

definition demo_world :: world where
  "demo_world = \<lparr>db = [acct_1], logged = [], clients_created = 0, clients_closed = 0\<rparr>"

text \<open>An empty table, and the row a manual TikTok link of user \<open>u3\<close> leaves.\<close>

definition empty_world :: world where
  "empty_world = \<lparr>db = [], logged = [], clients_created = 0, clients_closed = 0\<rparr>"

definition manual_u3 :: SocialAccount where
  "manual_u3 =
     \<lparr>id' = ''row-3'', user_id = ''u3'', platform = ''tiktok'', account_id = ''manual_handle_u3'',
      username = Some ''handle'', display_name = Some ''handle'',
      access_token = ''enc:manual_link_placeholder'', refresh_token = None, expires_at = None,
      scope = None, is_verified = False, last_verified_at = None\<rparr>"

text \<open>
  A TikTok link, and the envelope \<open>POST /user/info/\<close> answers for its owner: the profile
  fields sit under \<open>data.user\<close>, as \<open>TikTokClient\<close> reads them.
\<close>

definition acct_tiktok :: SocialAccount where
  "acct_tiktok =
     \<lparr>id' = ''row-7'', user_id = ''u7'', platform = ''tiktok'', account_id = ''open_id_123'',
      username = Some ''old_handle'', display_name = Some ''Old Name'',
      access_token = ''enc:tok7'', refresh_token = None, expires_at = None, scope = None,
      is_verified = False, last_verified_at = None\<rparr>"

definition tiktok_response :: json where
  "tiktok_response =
     JDict [(''data'', JDict [(''user'',
        JDict [(''open_id'', JStr ''open_id_123''), (''display_name'', JStr ''New Name'')])])]"

definition tiktok_env :: env where
  "tiktok_env = demo_env\<lparr>transport := (\<lambda>p t. Inr tiktok_response)\<rparr>"

definition tiktok_world :: world where
  "tiktok_world = \<lparr>db = [acct_tiktok], logged = [], clients_created = 0, clients_closed = 0\<rparr>"

text \<open>An OAuth service whose revocation endpoint fails.\<close>

definition revoke_fails_env :: env where
  "revoke_fails_env =
     demo_env\<lparr>oauth_revoke_token := (\<lambda>p t c s. Some (OtherError ''revoke failed''))\<rparr>"



definition refreshed_row :: "env \<Rightarrow> string \<Rightarrow> string \<Rightarrow> SocialAccount \<Rightarrow> SocialAccount" where
  "refreshed_row e client_id client_secret account =
     (case refresh_one e client_id client_secret account of
        Inr (Some account') \<Rightarrow> account'
      | Inr None \<Rightarrow> account
      | Inl exc \<Rightarrow> account)"

text \<open>
  A second link, and an OAuth service that refuses the first link's refresh token and
  answers for every other one.
\<close>

definition acct_2 :: SocialAccount where
  "acct_2 =
     \<lparr>id' = ''row-2'', user_id = ''u2'', platform = ''facebook'', account_id = ''fb_2'',
      username = Some ''amy'', display_name = Some ''Amy A'', access_token = ''enc:tok2'',
      refresh_token = Some ''enc:ref2'', expires_at = Some 3000, scope = None,
      is_verified = True, last_verified_at = Some 500\<rparr>"

definition batch_env :: env where
  "batch_env =
     demo_env\<lparr>oauth_refresh_token := (\<lambda>p rt cid cs.
        if rt = ''ref1'' then Inl (OtherError ''invalid_grant'')
        else Inr \<lparr>td_access_token = Some (''new-'' @ rt), td_refresh_token = None,
                  td_expires_at = Some 9000\<rparr>)\<rparr>"

definition batch_world :: world where
  "batch_world = \<lparr>db = [acct_1, acct_2], logged = [], clients_created = 0, clients_closed = 0\<rparr>"

text \<open>
  The store is well formed when its primary keys are distinct and no two rows share
  \<open>(platform, account_id)\<close>. \<open>no_new_verified rows rows'\<close>: every verified row of
  \<open>rows'\<close> was a verified row of \<open>rows\<close>, under the same primary key.
\<close>

definition store_ok :: "SocialAccount list \<Rightarrow> bool" where
  "store_ok rows = (distinct (map id' rows) \<and> unique_links rows)"

definition no_new_verified :: "SocialAccount list \<Rightarrow> SocialAccount list \<Rightarrow> bool" where
  "no_new_verified rows rows' =
     (\<forall>r' \<in> set rows'. is_verified r' \<longrightarrow> (\<exists>r \<in> set rows. id' r = id' r' \<and> is_verified r))"

text \<open>
  Two users whose identifiers agree on the first eight characters, each linking the
  TikTok handle \<open>x\<close> by hand: the rows \<open>link_manual_account\<close> leaves for them.
\<close>

definition manual_a :: SocialAccount where
  "manual_a =
     \<lparr>id' = ''row-8'', user_id = ''3f2a9c1e-0001'', platform = ''tiktok'',
      account_id = ''manual_x_3f2a9c1e'', username = Some ''x'', display_name = Some ''x'',
      access_token = ''enc:manual_link_placeholder'', refresh_token = None, expires_at = None,
      scope = None, is_verified = False, last_verified_at = None\<rparr>"

definition collide_world :: world where
  "collide_world =
     \<lparr>db = [manual_a], logged = [(INFO, ''Retrieved user accounts''),
                                  (INFO, ''Manual account linked successfully'')],
      clients_created = 0, clients_closed = 0\<rparr>"

definition manual_b :: SocialAccount where
  "manual_b =
     \<lparr>id' = ''row-new'', user_id = ''3f2a9c1e-0002'', platform = ''tiktok'',
      account_id = ''manual_x_3f2a9c1e'', username = Some ''x'', display_name = Some ''x'',
      access_token = ''enc:manual_link_placeholder'', refresh_token = None, expires_at = None,
      scope = None, is_verified = False, last_verified_at = None\<rparr>"

text \<open>
  A provider that answers with somebody else's identity, and a store whose TikTok link
  is already verified.
\<close>

definition mismatch_env :: env where
  "mismatch_env =
     demo_env\<lparr>transport := (\<lambda>p t. Inr (JDict [(''data'', JDict [(''user'',
        JDict [(''open_id'', JStr ''someone_else'')])])]))\<rparr>"

definition verified_world :: world where
  "verified_world =
     \<lparr>db = [acct_tiktok\<lparr>is_verified := True, last_verified_at := Some 500\<rparr>], logged = [],
      clients_created = 0, clients_closed = 0\<rparr>"

text \<open>
  What the loop body does with one candidate: it raises (anywhere in its \<open>try\<close> block:
  \<open>Platform(...)\<close>, the decryption of the refresh token, the provider call, the lookup of
  \<open>token_data["access_token"]\<close>), it skips the candidate with \<open>continue\<close>, or it replaces
  the candidate's tokens.
\<close>

definition item_raises :: "env \<Rightarrow> string \<Rightarrow> string \<Rightarrow> SocialAccount \<Rightarrow> bool" where
  "item_raises e client_id client_secret account =
     (case refresh_one e client_id client_secret account of
        Inl exc \<Rightarrow> True
      | Inr r \<Rightarrow> False)"

definition item_skipped :: "env \<Rightarrow> string \<Rightarrow> string \<Rightarrow> SocialAccount \<Rightarrow> bool" where
  "item_skipped e client_id client_secret account =
     (case refresh_one e client_id client_secret account of
        Inr None \<Rightarrow> True
      | Inr (Some account') \<Rightarrow> False
      | Inl exc \<Rightarrow> False)"

definition item_refreshed :: "env \<Rightarrow> string \<Rightarrow> string \<Rightarrow> SocialAccount \<Rightarrow> bool" where
  "item_refreshed e client_id client_secret account =
     (case refresh_one e client_id client_secret account of
        Inr (Some account') \<Rightarrow> True
      | Inr None \<Rightarrow> False
      | Inl exc \<Rightarrow> False)"

text \<open>
  The number of \<open>logger.error("Failed to refresh token", ...)\<close> records in a log: the
  loop's handler writes one for each exception it catches.
\<close>

definition failure_records :: "log_record list \<Rightarrow> nat" where
  "failure_records logs = length (filter (\<lambda>r. r = (ERROR, ''Failed to refresh token'')) logs)"


section \<open>Facts about lookups and pending changes\<close>

lemma find_SomeD: "find P xs = Some x \<Longrightarrow> x \<in> set xs \<and> P x"
  by (induction xs) (auto split: if_splits)

lemma find_None_D: "find P xs = None \<Longrightarrow> x \<in> set xs \<Longrightarrow> \<not> P x"
  by (induction xs) (auto split: if_splits)

lemma find_pending_update:
  "find (\<lambda>r. id' r = id' a) rows = Some x \<Longrightarrow>
   find (\<lambda>r. id' r = id' a) (pending_update a rows) = Some a"
  by (induction rows) (auto simp: pending_update_def)

lemma find_Some_id:
  "find P rows = Some x \<Longrightarrow> \<exists>y. find (\<lambda>r. id' r = id' x) rows = Some y"
  by (induction rows) (auto split: if_splits)

lemma Platform_of_value: "Platform_of (platform_value p) = Inr p"
  by (cases p) (simp_all add: Platform_of_def all_platforms_def)

lemma Platform_of_unknown:
  "s \<notin> set (map platform_value all_platforms) \<Longrightarrow>
   Platform_of s = Inl (ValueError ([CHR 0x27] @ s @ [CHR 0x27] @ '' is not a valid Platform''))"
  by (auto simp: Platform_of_def all_platforms_def)

lemma db_revoke_on_unlink: "db (revoke_on_unlink e account c s w) = db w"
  by (simp add: revoke_on_unlink_def logger_def split: sum.splits)

lemma id_update_tokens: "id' (update_tokens e a t r x) = id' a"
  by (simp add: update_tokens_def)

lemma refresh_one_id: "refresh_one e cid cs a = Inr (Some a') \<Longrightarrow> id' a' = id' a"
  by (auto simp: refresh_one_def and_then_def id_update_tokens
      split: sum.splits option.splits if_splits)


lemma find_None_id: "k \<notin> id' ` set rows \<Longrightarrow> find (\<lambda>x. id' x = k) rows = None"
  by (induction rows) auto

lemma refresh_loop_pending:
  "distinct (map id' accounts) \<Longrightarrow>
   fst (snd (refresh_loop e cid cs accounts (st, pending, w)))
     = map (\<lambda>r. case find (\<lambda>a. id' a = id' r) accounts of
                   None \<Rightarrow> r
                 | Some a \<Rightarrow> (case refresh_one e cid cs a of
                                Inr (Some a') \<Rightarrow> a' | Inr None \<Rightarrow> r | Inl exc \<Rightarrow> r)) pending"
proof (induction accounts arbitrary: st pending w)
  case Nil then show ?case by simp
next
  case (Cons a accounts)
  have d: "distinct (map id' accounts)" and na: "id' a \<notin> id' ` set accounts"
    using Cons.prems by auto
  have nf: "find (\<lambda>x. id' x = id' a) accounts = None"
    using na by (rule find_None_id)
  show ?case
  proof (cases "refresh_one e cid cs a")
    case (Inl exc)
    then show ?thesis using Cons.IH [OF d] nf
      by (auto intro!: map_cong split: option.splits sum.splits)
  next
    case (Inr r)
    show ?thesis
    proof (cases r)
      case None
      then show ?thesis using Inr Cons.IH [OF d] nf
        by (auto intro!: map_cong split: option.splits sum.splits)
    next
      case (Some a')
      have ia: "id' a' = id' a" using refresh_one_id Inr Some by blast
      show ?thesis using Inr Some Cons.IH [OF d] nf ia
        by (auto simp: pending_update_def comp_def intro!: map_cong split: option.splits sum.splits)
    qed
  qed
qed

lemma find_filter_id:
  "distinct (map id' rows) \<Longrightarrow> r \<in> set rows \<Longrightarrow>
   find (\<lambda>a. id' a = id' r) (filter P rows) = (if P r then Some r else None)"
proof (induction rows)
  case Nil then show ?case by simp
next
  case (Cons x rows)
  show ?case
  proof (cases "r = x")
    case True
    have "find (\<lambda>a. id' a = id' x) (filter P rows) = None"
      using Cons.prems(1) by (intro find_None_id) auto
    then show ?thesis using True by simp
  next
    case False
    then have r: "r \<in> set rows" using Cons.prems by simp
    have "id' x \<noteq> id' r" using Cons.prems(1) r by auto
    then show ?thesis using Cons.IH r Cons.prems(1) by simp
  qed
qed

text \<open>
  What each operation can do to the table: it leaves it as it was, replaces one row,
  appends one row or deletes rows.
\<close>

lemma db_reraise: "db (snd (reraise m p exc w)) = db w"
  by (simp add: reraise_def logger_def)

lemma db_logger: "db (logger l m w) = db w"
  by (simp add: logger_def)

lemma db_emit: "db (emit logs w) = db w"
  by (simp add: emit_def)

lemma db_close: "db (close c w) = db w"
  by (simp add: close_def)

lemma db_create_platform_client: "db (snd (create_platform_client p t w)) = db w"
  by (cases p) (simp_all add: create_platform_client_def logger_def)

lemma create_platform_client_Some: "\<exists>w1. create_platform_client p t w = (Some (p, t), w1) \<and> db w1 = db w"
  by (cases p) (simp_all add: create_platform_client_def logger_def)

lemma link_account_db:
  "db (snd (link_account e uid p aid tok rt ex sc un dn w)) = db w
   \<or> (\<exists>existing. find (\<lambda>r. platform r = platform_value p \<and> account_id r = aid) (db w) = Some existing
         \<and> user_id existing = uid
         \<and> db (snd (link_account e uid p aid tok rt ex sc un dn w))
             = pending_update ((update_tokens e existing tok rt ex)
                                 \<lparr>scope := sc, username := un, display_name := dn\<rparr>) (db w))
   \<or> (find (\<lambda>r. platform r = platform_value p \<and> account_id r = aid) (db w) = None
         \<and> (\<exists>account. id' account = generated_id e \<and> platform account = platform_value p
               \<and> account_id account = aid \<and> is_verified account = False
               \<and> db (snd (link_account e uid p aid tok rt ex sc un dn w)) = db w @ [account]))"
  by (simp add: link_account_def check_duplicate_account_def execute_first_def commit_def
      db_reraise db_logger pending_add_def Let_def split: option.splits)

lemma verify_account_db:
  "db (snd (verify_account e aid cid cs w)) = db w
   \<or> (\<exists>account p tok. find (\<lambda>r. id' r = aid) (db w) = Some account
         \<and> Platform_of (platform account) = Inr p \<and> get_access_token e account = Inr tok
         \<and> fst (verify_account_ownership e (p, tok) (account_id account)) = Inr True
         \<and> fst (verify_account e aid cid cs w) = Inr True
         \<and> db (snd (verify_account e aid cid cs w)) = pending_update (mark_verified e account) (db w))"
proof (cases "get_account_by_id e aid w")
  case (Inl exc) then show ?thesis by (simp add: verify_account_def db_reraise)
next
  case (Inr found)
  show ?thesis
  proof (cases found)
    case None then show ?thesis using Inr by (simp add: verify_account_def db_logger)
  next
    case (Some account)
    have f: "find (\<lambda>r. id' r = aid) (db w) = Some account"
      using Inr Some by (auto simp: get_account_by_id_def execute_first_def split: option.splits)
    show ?thesis
    proof (cases "Platform_of (platform account)")
      case (Inl exc) then show ?thesis using Inr Some
        by (simp add: verify_account_def and_then_def db_reraise)
    next
      case pl: (Inr p)
      show ?thesis
      proof (cases "get_access_token e account")
        case (Inl exc) then show ?thesis using Inr Some pl
          by (simp add: verify_account_def and_then_def db_reraise)
      next
        case tk: (Inr tok)
        obtain w1 where c: "create_platform_client p tok w = (Some (p, tok), w1)" and d1: "db w1 = db w"
          using create_platform_client_Some by blast
        obtain r logs where o: "verify_account_ownership e (p, tok) (account_id account) = (r, logs)"
          by (cases "verify_account_ownership e (p, tok) (account_id account)") auto
        show ?thesis
        proof (cases r)
          case (Inl exc) then show ?thesis using Inr Some pl tk c o d1
            by (simp add: verify_account_def and_then_def db_reraise db_emit)
        next
          case rv: (Inr b)
          show ?thesis
          proof (cases b)
            case False then show ?thesis using Inr Some pl tk c o d1 rv
              by (simp add: verify_account_def and_then_def db_close db_logger db_emit)
          next
            case True
            show ?thesis
            proof (cases "commit_raises e")
              case None
              then show ?thesis using Inr Some pl tk c o d1 rv True f
                by (simp add: verify_account_def and_then_def db_close db_logger db_emit commit_def Let_def)
            next
              case (Some exc)
              then show ?thesis using Inr \<open>found = Some account\<close> pl tk c o d1 rv True
                by (simp add: verify_account_def and_then_def db_reraise db_emit commit_def Let_def)
            qed
          qed
        qed
      qed
    qed
  qed
qed

lemma unlink_account_db:
  "db (snd (unlink_account e aid uid cid cs rv w)) = db w
   \<or> (\<exists>account. account \<in> set (db w)
         \<and> db (snd (unlink_account e aid uid cid cs rv w)) = pending_delete account (db w))"
proof (cases "get_account_by_id e aid w")
  case (Inl exc) then show ?thesis by (simp add: unlink_account_def db_reraise)
next
  case (Inr found)
  show ?thesis
  proof (cases found)
    case None then show ?thesis using Inr by (simp add: unlink_account_def db_logger)
  next
    case (Some account)
    have "find (\<lambda>r. id' r = aid) (db w) = Some account"
      using Inr Some by (auto simp: get_account_by_id_def execute_first_def split: option.splits)
    then have m: "account \<in> set (db w)" using find_SomeD by fast
    show ?thesis using Inr Some m
      by (auto simp: unlink_account_def db_reraise db_logger commit_def Let_def db_revoke_on_unlink
          split: option.splits)
  qed
qed

lemma disconnect_account_db:
  "db (snd (disconnect_account e uid pl w)) = db w
   \<or> (\<exists>account. account \<in> set (db w)
         \<and> db (snd (disconnect_account e uid pl w)) = pending_delete account (db w))"
proof (cases "execute_first e (\<lambda>r. user_id r = uid \<and> platform r = lower pl) w")
  case (Inl exc) then show ?thesis by (simp add: disconnect_account_def db_reraise)
next
  case (Inr found)
  show ?thesis
  proof (cases found)
    case None then show ?thesis using Inr by (simp add: disconnect_account_def db_logger)
  next
    case (Some account)
    have "find (\<lambda>r. user_id r = uid \<and> platform r = lower pl) (db w) = Some account"
      using Inr Some by (auto simp: execute_first_def split: option.splits)
    then have m: "account \<in> set (db w)" using find_SomeD by fast
    show ?thesis using Inr Some m
      by (auto simp: disconnect_account_def db_reraise db_logger commit_def Let_def
          split: option.splits)
  qed
qed

lemma link_manual_account_db:
  "db (snd (link_manual_account e uid pl un w)) = db w
   \<or> (\<exists>account. id' account = generated_id e \<and> is_verified account = False
         \<and> db (snd (link_manual_account e uid pl un w)) = db w @ [account])"
  by (auto simp: link_manual_account_def get_user_accounts_def execute_all_def db_reraise db_logger
      commit_def pending_add_def Let_def split: sum.splits option.splits)

lemma overlay_profile_frame:
  "overlay_profile pd a = Inr a' \<Longrightarrow>
   a' = a\<lparr>username := username a', display_name := display_name a'\<rparr>"
  by (auto simp: overlay_profile_def and_then_def split: sum.splits if_splits)

lemma refresh_account_body_db:
  "db (snd (refresh_account_body e c account w)) = db w
   \<or> (\<exists>account'. account' = account\<lparr>username := username account', display_name := display_name account'\<rparr>
         \<and> db (snd (refresh_account_body e c account w)) = pending_update account' (db w))"
proof -
  obtain r logs where g: "get_user_profile e c = (r, logs)" by (cases "get_user_profile e c") auto
  show ?thesis
  proof (cases r)
    case (Inl exc) then show ?thesis using g by (simp add: refresh_account_body_def db_emit)
  next
    case (Inr pd)
    show ?thesis
    proof (cases "overlay_profile pd account")
      case (Inl exc) then show ?thesis using g Inr
        by (simp add: refresh_account_body_def db_emit Let_def)
    next
      case ov: (Inr account')
      from overlay_profile_frame [OF ov] show ?thesis using g Inr ov
        by (auto simp: refresh_account_body_def db_emit db_logger commit_def Let_def
            split: option.splits)
    qed
  qed
qed

lemma refresh_account_db:
  "db (snd (refresh_account e uid p w)) = db w
   \<or> (\<exists>account account'. account \<in> set (db w)
         \<and> account' = account\<lparr>username := username account', display_name := display_name account'\<rparr>
         \<and> db (snd (refresh_account e uid p w)) = pending_update account' (db w))"
proof (cases "execute_raises e")
  case (Some exc)
  then show ?thesis
    by (simp add: refresh_account_def get_user_accounts_def execute_all_def db_reraise db_logger)
next
  case None
  let ?accounts = "filter (\<lambda>r. user_id r = uid \<and> platform r = platform_value p) (db w)"
  have g: "get_user_accounts e uid (Some p) False w
             = (Inr ?accounts, logger INFO ''Retrieved user accounts'' w)"
    using None by (simp add: get_user_accounts_def execute_all_def)
  show ?thesis
  proof (cases ?accounts)
    case Nil then show ?thesis using g by (simp add: refresh_account_def db_logger)
  next
    case (Cons account rest)
    then have m: "account \<in> set (db w)"
      by (metis filter_is_subset list.set_intros(1) subsetD)
    show ?thesis
    proof (cases "get_access_token e account")
      case (Inl exc) then show ?thesis using g Cons
        by (simp add: refresh_account_def db_reraise db_logger)
    next
      case (Inr tok)
      obtain w2 where c: "create_platform_client p tok (logger INFO ''Retrieved user accounts'' w) = (Some (p, tok), w2)"
        and d2: "db w2 = db w"
        using create_platform_client_Some [of p tok "logger INFO ''Retrieved user accounts'' w"]
        by (auto simp: db_logger)
      obtain r w3 where b: "refresh_account_body e (p, tok) account w2 = (r, w3)"
        by (cases "refresh_account_body e (p, tok) account w2") auto
      have res: "db (snd (refresh_account e uid p w)) = db w3"
        using g Cons Inr c b by (cases r) (simp_all add: refresh_account_def db_reraise db_close)
      from refresh_account_body_db [of e "(p, tok)" account w2] b d2
      show ?thesis using res m by auto
    qed
  qed
qed

lemma db_refresh_loop:
  "db (snd (snd (refresh_loop e cid cs accounts (st, pending, w0)))) = db w0"
  by (induction accounts arbitrary: st pending w0)
    (auto simp: logger_def split: sum.splits option.splits)

lemma refresh_all_tokens_db:
  "db (snd (refresh_all_tokens e cid cs h w)) = db w
   \<or> (\<exists>threshold.
         db (snd (refresh_all_tokens e cid cs h w))
           = fst (snd (refresh_loop e cid cs (filter (refresh_candidate threshold) (db w))
                         (\<lparr>success = 0, failed = 0, skipped = 0\<rparr>, db w, w))))"
proof (cases "refresh_threshold e h")
  case (Inl exc)
  then show ?thesis by (simp add: refresh_all_tokens_def db_logger)
next
  case (Inr threshold)
  let ?accounts = "filter (refresh_candidate threshold) (db w)"
  obtain st pending w1 where l: "refresh_loop e cid cs ?accounts
      (\<lparr>success = 0, failed = 0, skipped = 0\<rparr>, db w, w) = (st, pending, w1)"
    by (cases "refresh_loop e cid cs ?accounts (\<lparr>success = 0, failed = 0, skipped = 0\<rparr>, db w, w)") auto
  have w1: "db w1 = db w"
    using db_refresh_loop [of e cid cs ?accounts "\<lparr>success = 0, failed = 0, skipped = 0\<rparr>" "db w" w] l
    by simp
  have "db (snd (refresh_all_tokens e cid cs h w)) = db w
        \<or> db (snd (refresh_all_tokens e cid cs h w)) = pending"
    using Inr l w1
    by (auto simp: refresh_all_tokens_def execute_all_def commit_def db_logger split: option.splits)
  then show ?thesis using l by (metis fst_conv snd_conv)
qed

lemma map_pending_update:
  assumes d: "distinct (map id' rows)" and a: "a \<in> set rows" and i: "id' a' = id' a" and f: "f a' = f a"
  shows "map f (pending_update a' rows) = map f rows"
proof -
  have inj: "inj_on id' (set rows)" using d by (simp add: distinct_map)
  have "\<And>r. r \<in> set rows \<Longrightarrow> f (if id' r = id' a' then a' else r) = f r"
  proof -
    fix r assume r: "r \<in> set rows"
    show "f (if id' r = id' a' then a' else r) = f r"
    proof (cases "id' r = id' a'")
      case True
      then have "r = a" using inj r a i by (auto dest: inj_onD)
      then show ?thesis using True f by simp
    next
      case False then show ?thesis by simp
    qed
  qed
  then show ?thesis by (simp add: pending_update_def comp_def)
qed

lemma link_count_one:
  assumes u: "unique_links rows" and a: "a \<in> set rows"
  shows "link_count (user_id a) (platform a) (account_id a) rows = 1"
  using u a
proof (induction rows)
  case Nil then show ?case by simp
next
  case (Cons r rows)
  show ?case
  proof (cases "a = r")
    case True
    have "filter (\<lambda>x. user_id x = user_id a \<and> platform x = platform a \<and> account_id x = account_id a) rows = []"
      using Cons.prems(1) True by (auto simp: unique_links_def link_key_def filter_empty_conv image_iff)
    then show ?thesis using True by (simp add: link_count_def)
  next
    case False
    then have ar: "a \<in> set rows" using Cons.prems by simp
    have "link_key r \<noteq> link_key a" using Cons.prems(1) ar by (auto simp: unique_links_def)
    then show ?thesis using Cons.IH ar Cons.prems(1)
      by (auto simp: link_count_def unique_links_def link_key_def)
  qed
qed

lemma store_ok_update:
  "store_ok rows \<Longrightarrow> a \<in> set rows \<Longrightarrow> id' a' = id' a \<Longrightarrow> link_key a' = link_key a \<Longrightarrow>
   store_ok (pending_update a' rows)"
  using map_pending_update [of rows a a' id'] map_pending_update [of rows a a' link_key]
  by (simp add: store_ok_def unique_links_def)

lemma store_ok_delete: "store_ok rows \<Longrightarrow> store_ok (pending_delete a rows)"
  by (simp add: store_ok_def unique_links_def pending_delete_def distinct_map_filter)

lemma store_ok_add:
  "store_ok rows \<Longrightarrow> id' a \<notin> id' ` set rows \<Longrightarrow> link_key a \<notin> link_key ` set rows \<Longrightarrow>
   store_ok (rows @ [a])"
  by (simp add: store_ok_def unique_links_def)

lemma refresh_one_shape:
  "refresh_one e cid cs a = Inr (Some a') \<Longrightarrow> \<exists>t r x. a' = update_tokens e a t r x"
  by (auto simp: refresh_one_def and_then_def split: sum.splits option.splits if_splits)

lemma refresh_one_frame:
  assumes "refresh_one e cid cs a = Inr (Some a')"
  shows "id' a' = id' a \<and> link_key a' = link_key a \<and> is_verified a' = is_verified a"
proof -
  obtain t r x where "a' = update_tokens e a t r x"
    using refresh_one_shape [OF assms] by blast
  then show ?thesis by (simp add: update_tokens_def link_key_def)
qed

lemma refreshed_row_frame:
  "id' (refreshed_row e cid cs a) = id' a \<and> link_key (refreshed_row e cid cs a) = link_key a"
proof (cases "refresh_one e cid cs a")
  case (Inl exc) then show ?thesis by (simp add: refreshed_row_def)
next
  case (Inr r)
  show ?thesis
  proof (cases r)
    case None then show ?thesis using Inr by (simp add: refreshed_row_def)
  next
    case (Some a')
    then show ?thesis using Inr refresh_one_frame [of e cid cs a a'] by (simp add: refreshed_row_def)
  qed
qed

lemma refresh_loop_commit:
  assumes d: "distinct (map id' rows)"
  shows "fst (snd (refresh_loop e cid cs (filter P rows) (st, rows, w)))
           = map (\<lambda>r. if P r then refreshed_row e cid cs r else r) rows"
proof -
  have dc: "distinct (map id' (filter P rows))" using d by (simp add: distinct_map_filter)
  have "fst (snd (refresh_loop e cid cs (filter P rows) (st, rows, w)))
          = map (\<lambda>r. case find (\<lambda>a. id' a = id' r) (filter P rows) of
                   None \<Rightarrow> r
                 | Some a \<Rightarrow> (case refresh_one e cid cs a of
                                Inr (Some a') \<Rightarrow> a' | Inr None \<Rightarrow> r | Inl exc \<Rightarrow> r)) rows"
    by (rule refresh_loop_pending [OF dc])
  also have "\<dots> = map (\<lambda>r. if P r then refreshed_row e cid cs r else r) rows"
    by (rule map_cong [OF refl]) (simp add: find_filter_id [OF d] refreshed_row_def)
  finally show ?thesis .
qed

lemma store_ok_refresh_loop:
  assumes s: "store_ok rows"
  shows "store_ok (fst (snd (refresh_loop e cid cs (filter P rows) (st, rows, w))))"
proof -
  have d: "distinct (map id' rows)" using s by (simp add: store_ok_def)
  have m1: "map id' (map (\<lambda>r. if P r then refreshed_row e cid cs r else r) rows) = map id' rows"
    by (simp add: comp_def refreshed_row_frame if_distrib cong: if_cong)
  have m2: "map link_key (map (\<lambda>r. if P r then refreshed_row e cid cs r else r) rows) = map link_key rows"
    by (simp add: comp_def refreshed_row_frame if_distrib cong: if_cong)
  show ?thesis using s m1 m2 unfolding refresh_loop_commit [OF d]
    by (simp add: store_ok_def unique_links_def del: map_map)
qed

lemma no_new_verified_refl: "no_new_verified rows rows"
  by (auto simp: no_new_verified_def)

lemma no_new_verified_update:
  "no_new_verified rows0 pending \<Longrightarrow> a \<in> set rows0 \<Longrightarrow> id' a' = id' a \<Longrightarrow>
   is_verified a' = is_verified a \<Longrightarrow> no_new_verified rows0 (pending_update a' pending)"
  by (auto simp: no_new_verified_def pending_update_def)

lemma no_new_verified_delete: "no_new_verified rows (pending_delete a rows)"
  by (auto simp: no_new_verified_def pending_delete_def)

lemma no_new_verified_add: "\<not> is_verified a \<Longrightarrow> no_new_verified rows (rows @ [a])"
  by (auto simp: no_new_verified_def)

lemma no_new_verified_refresh_loop:
  "set accounts \<subseteq> set rows0 \<Longrightarrow> no_new_verified rows0 pending \<Longrightarrow>
   no_new_verified rows0 (fst (snd (refresh_loop e cid cs accounts (st, pending, w))))"
proof (induction accounts arbitrary: st pending w)
  case Nil then show ?case by simp
next
  case (Cons a accounts)
  have sub: "set accounts \<subseteq> set rows0" and a: "a \<in> set rows0" using Cons.prems(1) by auto
  show ?case
  proof (cases "refresh_one e cid cs a")
    case (Inl exc) then show ?thesis using Cons.IH [OF sub Cons.prems(2)] by simp
  next
    case (Inr r)
    show ?thesis
    proof (cases r)
      case None then show ?thesis using Inr Cons.IH [OF sub Cons.prems(2)] by simp
    next
      case (Some a')
      from refresh_one_frame [of e cid cs a a'] Inr Some
      have "no_new_verified rows0 (pending_update a' pending)"
        using no_new_verified_update [OF Cons.prems(2) a] by simp
      from Cons.IH [OF sub this] show ?thesis using Inr Some by simp
    qed
  qed
qed

lemma store_ok_link_account:
  assumes s: "store_ok (db w)" and fresh: "generated_id e \<notin> id' ` set (db w)"
  shows "store_ok (db (snd (link_account e uid p aid tok rt ex sc un dn w)))"
proof -
  let ?db' = "db (snd (link_account e uid p aid tok rt ex sc un dn w))"
  let ?f = "find (\<lambda>r. platform r = platform_value p \<and> account_id r = aid) (db w)"
  from link_account_db [of e uid p aid tok rt ex sc un dn w]
  consider (same) "?db' = db w"
    | (upd) existing where "?f = Some existing"
        "?db' = pending_update ((update_tokens e existing tok rt ex)
                                 \<lparr>scope := sc, username := un, display_name := dn\<rparr>) (db w)"
    | (add) account where "?f = None" "id' account = generated_id e"
        "platform account = platform_value p" "account_id account = aid" "?db' = db w @ [account]"
    by blast
  then show ?thesis
  proof cases
    case same then show ?thesis using s by simp
  next
    case upd
    have m: "existing \<in> set (db w)" using find_SomeD [OF upd(1)] by simp
    show ?thesis unfolding upd(2)
      by (rule store_ok_update [OF s m]) (simp_all add: update_tokens_def link_key_def)
  next
    case add
    have "\<And>r. r \<in> set (db w) \<Longrightarrow> link_key r \<noteq> link_key account"
      using find_None_D [OF add(1)] add(3,4) by (auto simp: link_key_def)
    then have nk: "link_key account \<notin> link_key ` set (db w)" by force
    have ni: "id' account \<notin> id' ` set (db w)" using fresh add(2) by simp
    show ?thesis unfolding add(5) by (rule store_ok_add [OF s ni nk])
  qed
qed

lemma store_ok_verify_account:
  assumes s: "store_ok (db w)"
  shows "store_ok (db (snd (verify_account e aid cid cs w)))"
proof -
  from verify_account_db [of e aid cid cs w]
  consider (same) "db (snd (verify_account e aid cid cs w)) = db w"
    | (upd) account where "find (\<lambda>r. id' r = aid) (db w) = Some account"
        "db (snd (verify_account e aid cid cs w)) = pending_update (mark_verified e account) (db w)"
    by blast
  then show ?thesis
  proof cases
    case same then show ?thesis using s by simp
  next
    case upd
    have m: "account \<in> set (db w)" using find_SomeD [OF upd(1)] by simp
    show ?thesis unfolding upd(2)
      by (rule store_ok_update [OF s m]) (simp_all add: mark_verified_def link_key_def)
  qed
qed

lemma store_ok_unlink_account:
  "store_ok (db w) \<Longrightarrow> store_ok (db (snd (unlink_account e aid uid cid cs rv w)))"
  using unlink_account_db [of e aid uid cid cs rv w] by (auto simp: store_ok_delete)

lemma store_ok_disconnect_account:
  "store_ok (db w) \<Longrightarrow> store_ok (db (snd (disconnect_account e uid pl w)))"
  using disconnect_account_db [of e uid pl w] by (auto simp: store_ok_delete)

lemma store_ok_refresh_account:
  assumes s: "store_ok (db w)"
  shows "store_ok (db (snd (refresh_account e uid p w)))"
proof -
  from refresh_account_db [of e uid p w]
  consider (same) "db (snd (refresh_account e uid p w)) = db w"
    | (upd) account account' where "account \<in> set (db w)"
        "account' = account\<lparr>username := username account', display_name := display_name account'\<rparr>"
        "db (snd (refresh_account e uid p w)) = pending_update account' (db w)"
    by blast
  then show ?thesis
  proof cases
    case same then show ?thesis using s by simp
  next
    case upd
    have i: "id' account' = id' account" by (subst upd(2)) simp
    have k: "link_key account' = link_key account" unfolding link_key_def by (subst (1 2) upd(2)) simp
    show ?thesis unfolding upd(3) by (rule store_ok_update [OF s upd(1) i k])
  qed
qed

lemma store_ok_refresh_all_tokens:
  "store_ok (db w) \<Longrightarrow> store_ok (db (snd (refresh_all_tokens e cid cs h w)))"
  using refresh_all_tokens_db [of e cid cs h w] store_ok_refresh_loop [of "db w" e cid cs]
  by auto

lemma set_pending_update: "r \<in> set (pending_update a rows) \<Longrightarrow> r = a \<or> r \<in> set rows"
  by (auto simp: pending_update_def split: if_splits)

lemma no_new_verified_link_account:
  "no_new_verified (db w) (db (snd (link_account e uid p aid tok rt ex sc un dn w)))"
proof -
  let ?db' = "db (snd (link_account e uid p aid tok rt ex sc un dn w))"
  let ?f = "find (\<lambda>r. platform r = platform_value p \<and> account_id r = aid) (db w)"
  from link_account_db [of e uid p aid tok rt ex sc un dn w]
  consider (same) "?db' = db w"
    | (upd) existing where "?f = Some existing"
        "?db' = pending_update ((update_tokens e existing tok rt ex)
                                 \<lparr>scope := sc, username := un, display_name := dn\<rparr>) (db w)"
    | (add) account where "is_verified account = False" "?db' = db w @ [account]"
    by blast
  then show ?thesis
  proof cases
    case same then show ?thesis by (simp add: no_new_verified_refl)
  next
    case upd
    have m: "existing \<in> set (db w)" using find_SomeD [OF upd(1)] by simp
    show ?thesis unfolding upd(2)
      by (rule no_new_verified_update [OF no_new_verified_refl m]) (simp_all add: update_tokens_def)
  next
    case add
    show ?thesis unfolding add(2) by (rule no_new_verified_add) (simp add: add(1))
  qed
qed

lemma no_new_verified_unlink_account:
  "no_new_verified (db w) (db (snd (unlink_account e aid uid cid cs rv w)))"
  using unlink_account_db [of e aid uid cid cs rv w]
  by (auto simp: no_new_verified_delete no_new_verified_refl)

lemma no_new_verified_disconnect_account:
  "no_new_verified (db w) (db (snd (disconnect_account e uid pl w)))"
  using disconnect_account_db [of e uid pl w]
  by (auto simp: no_new_verified_delete no_new_verified_refl)

lemma no_new_verified_link_manual_account:
  "no_new_verified (db w) (db (snd (link_manual_account e uid pl un w)))"
  using link_manual_account_db [of e uid pl un w]
  by (auto simp: no_new_verified_add no_new_verified_refl)

lemma no_new_verified_refresh_account:
  "no_new_verified (db w) (db (snd (refresh_account e uid p w)))"
proof -
  from refresh_account_db [of e uid p w]
  consider (same) "db (snd (refresh_account e uid p w)) = db w"
    | (upd) account account' where "account \<in> set (db w)"
        "account' = account\<lparr>username := username account', display_name := display_name account'\<rparr>"
        "db (snd (refresh_account e uid p w)) = pending_update account' (db w)"
    by blast
  then show ?thesis
  proof cases
    case same then show ?thesis by (simp add: no_new_verified_refl)
  next
    case upd
    have i: "id' account' = id' account" by (subst upd(2)) simp
    have v: "is_verified account' = is_verified account" by (subst upd(2)) simp
    show ?thesis unfolding upd(3)
      by (rule no_new_verified_update [OF no_new_verified_refl upd(1) i v])
  qed
qed

lemma no_new_verified_refresh_all_tokens:
  "no_new_verified (db w) (db (snd (refresh_all_tokens e cid cs h w)))"
proof -
  have "\<And>threshold. no_new_verified (db w)
          (fst (snd (refresh_loop e cid cs (filter (refresh_candidate threshold) (db w))
                       (\<lparr>success = 0, failed = 0, skipped = 0\<rparr>, db w, w))))"
    by (rule no_new_verified_refresh_loop) (simp_all add: no_new_verified_refl)
  then show ?thesis
    using refresh_all_tokens_db [of e cid cs h w] by (auto simp: no_new_verified_refl)
qed

lemma verify_account_result:
  assumes ex: "execute_raises e = None"
    and f: "find (\<lambda>r. id' r = row_id) (db w) = Some account"
    and pl: "Platform_of (platform account) = Inr p"
    and tk: "get_access_token e account = Inr tok"
    and o: "fst (verify_account_ownership e (p, tok) (account_id account)) = Inr b"
  shows "(\<not> b \<longrightarrow> fst (verify_account e row_id cid cs w) = Inr False
                 \<and> db (snd (verify_account e row_id cid cs w)) = db w)
       \<and> (b \<and> commit_raises e = None \<longrightarrow>
             fst (verify_account e row_id cid cs w) = Inr True
             \<and> db (snd (verify_account e row_id cid cs w))
                 = pending_update (mark_verified e account) (db w))"
proof -
  obtain w1 where c: "create_platform_client p tok w = (Some (p, tok), w1)" and d1: "db w1 = db w"
    using create_platform_client_Some by blast
  obtain logs where o': "verify_account_ownership e (p, tok) (account_id account) = (Inr b, logs)"
    using o by (cases "verify_account_ownership e (p, tok) (account_id account)") auto
  show ?thesis
  proof (cases b)
    case False
    then show ?thesis using ex f pl tk c o' d1
      by (simp add: verify_account_def get_account_by_id_def execute_first_def and_then_def
          db_close db_logger db_emit)
  next
    case True
    then show ?thesis using ex f pl tk c o' d1
      by (auto simp: verify_account_def get_account_by_id_def execute_first_def and_then_def
          db_close db_logger db_emit commit_def Let_def)
  qed
qed

lemma refresh_loop_counts:
  "success (fst (refresh_loop e cid cs accounts (st, pending, w)))
     = success st + length (filter (item_refreshed e cid cs) accounts)
   \<and> failed (fst (refresh_loop e cid cs accounts (st, pending, w)))
     = failed st + length (filter (item_raises e cid cs) accounts)
   \<and> skipped (fst (refresh_loop e cid cs accounts (st, pending, w)))
     = skipped st + length (filter (item_skipped e cid cs) accounts)"
proof (induction accounts arbitrary: st pending w)
  case Nil then show ?case by simp
next
  case (Cons a accounts)
  show ?case
  proof (cases "refresh_one e cid cs a")
    case (Inl exc)
    then show ?thesis using Cons.IH
      by (simp add: item_refreshed_def item_raises_def item_skipped_def)
  next
    case (Inr r)
    then show ?thesis using Cons.IH
      by (cases r) (simp_all add: item_refreshed_def item_raises_def item_skipped_def)
  qed
qed

lemma refresh_loop_failure_records:
  "failure_records (logged (snd (snd (refresh_loop e cid cs accounts (st, pending, w)))))
     = failure_records (logged w) + length (filter (item_raises e cid cs) accounts)"
proof (induction accounts arbitrary: st pending w)
  case Nil then show ?case by simp
next
  case (Cons a accounts)
  show ?case
  proof (cases "refresh_one e cid cs a")
    case (Inl exc)
    then show ?thesis using Cons.IH
      by (simp add: item_raises_def failure_records_def logger_def)
  next
    case (Inr r)
    then show ?thesis using Cons.IH
      by (cases r) (simp_all add: item_raises_def failure_records_def logger_def)
  qed
qed

lemma item_partition:
  "length (filter (item_refreshed e cid cs) accounts) + length (filter (item_raises e cid cs) accounts)
     + length (filter (item_skipped e cid cs) accounts) = length accounts"
proof (induction accounts)
  case Nil then show ?case by simp
next
  case (Cons a accounts)
  show ?case
  proof (cases "refresh_one e cid cs a")
    case (Inl exc)
    then show ?thesis using Cons.IH
      by (simp add: item_refreshed_def item_raises_def item_skipped_def)
  next
    case (Inr r)
    then show ?thesis using Cons.IH
      by (cases r) (simp_all add: item_refreshed_def item_raises_def item_skipped_def)
  qed
qed

lemma failure_records_logger:
  "failure_records (logged (logger INFO m w)) = failure_records (logged w)"
  by (simp add: failure_records_def logger_def)

lemma demo_threshold: "refresh_threshold demo_env 24 = Inr 86400001000"
  by (simp add: refresh_threshold_def timedelta_hours_def datetime_add_def and_then_def
      datetime_min_def datetime_max_def demo_env_def)

lemma refresh_one_batch_1: "refresh_one batch_env ''cid'' ''secret'' acct_1 = Inl (OtherError ''invalid_grant'')"
  by (simp add: refresh_one_def and_then_def acct_1_def Platform_of_def all_platforms_def
      batch_env_def demo_env_def get_refresh_token_def)

lemma refresh_one_batch_2:
  "refresh_one batch_env ''cid'' ''secret'' acct_2
     = Inr (Some (acct_2\<lparr>access_token := ''enc:new-ref2'', refresh_token := Some ''enc:ref2'',
                         expires_at := Some 9000\<rparr>))"
  by (simp add: refresh_one_def and_then_def acct_2_def Platform_of_def all_platforms_def
      batch_env_def demo_env_def get_refresh_token_def update_tokens_def)




section \<open>The claims\<close>

text \<open>
  C10. Whenever \<open>link_account\<close> finds the \<open>(platform, account_id)\<close> pair already
  linked to the same user (and the session executes and commits), the entity it
  returns and stores under the existing primary key has \<open>scope\<close>, \<open>username\<close> and
  \<open>display_name\<close> equal to the arguments passed, whatever they are: there is no
  non-empty guard, so passing \<open>None\<close> erases a stored value.
\<close>

theorem link_account_relink_overwrites:
  assumes ex: "execute_raises e = None" and cm: "commit_raises e = None"
    and f: "find (\<lambda>r. platform r = platform_value p \<and> account_id r = aid) (db w) = Some existing"
    and own: "user_id existing = uid"
  shows "\<exists>a w'. link_account e uid p aid tok rt ex sc un dn w = (Inr a, w')
           \<and> scope a = sc \<and> username a = un \<and> display_name a = dn
           \<and> id' a = id' existing
           \<and> find (\<lambda>r. id' r = id' existing) (db w') = Some a"
proof -
  obtain y where y: "find (\<lambda>r. id' r = id' existing) (db w) = Some y"
    using find_Some_id [OF f] by blast
  let ?a = "(update_tokens e existing tok rt ex)\<lparr>scope := sc, username := un, display_name := dn\<rparr>"
  have ida: "id' ?a = id' existing" by (simp add: update_tokens_def)
  have "find (\<lambda>r. id' r = id' ?a) (pending_update ?a (db w)) = Some ?a"
    using y find_pending_update [of ?a "db w" y] by (simp add: ida)
  then show ?thesis
    using ex cm f own
    by (simp add: link_account_def check_duplicate_account_def execute_first_def commit_def
        logger_def Let_def ida update_tokens_def)
qed

theorem link_account_relink_overwrites_witness:
  "scope acct_1 = Some ''read'' \<and> username acct_1 = Some ''bob''
   \<and> display_name acct_1 = Some ''Bob B''
   \<and> (\<exists>a w'. link_account demo_env ''u1'' TWITTER ''acct_1'' ''tok2'' None None None None None
                demo_world = (Inr a, w')
      \<and> scope a = None \<and> username a = None \<and> display_name a = None
      \<and> id' a = id' acct_1
      \<and> find (\<lambda>r. id' r = id' acct_1) (db w') = Some a)"
proof -
  have h1: "execute_raises demo_env = None" and h2: "commit_raises demo_env = None"
    by (simp_all add: demo_env_def)
  have h3: "find (\<lambda>r. platform r = platform_value TWITTER \<and> account_id r = ''acct_1'')
              (db demo_world) = Some acct_1"
    by (simp add: demo_world_def acct_1_def)
  have h4: "user_id acct_1 = ''u1''" by (simp add: acct_1_def)
  have old: "scope acct_1 = Some ''read'' \<and> username acct_1 = Some ''bob''
             \<and> display_name acct_1 = Some ''Bob B''"
    by (simp add: acct_1_def)
  from link_account_relink_overwrites [OF h1 h2 h3 h4, of "''tok2''" None None None None None] old
  show ?thesis by blast
qed

text \<open>
  C8. \<open>link_manual_account\<close> checks the lowercased platform name against the enum and
  raises \<open>ValueError("Invalid platform: ... Valid: facebook, instagram, twitter, tiktok,
  youtube")\<close> for an unknown one; it raises \<open>ValueError("A ... account is already
  connected")\<close>, storing nothing, when the user has any row for that platform; otherwise
  (the session executing and committing) it appends an unverified row whose
  \<open>account_id\<close> is \<open>"manual_" + username + "_" + user_id[:8]\<close>.
\<close>

theorem link_manual_account_spec:
  "(lower pl \<notin> set (map platform_value all_platforms) \<longrightarrow>
      link_manual_account e uid pl un w =
        (Inl (ValueError (''Invalid platform: '' @ pl
                @ ''. Valid: facebook, instagram, twitter, tiktok, youtube'')), w))
   \<and> (lower pl = platform_value p \<and> execute_raises e = None
        \<and> (\<exists>r \<in> set (db w). user_id r = uid \<and> platform r = platform_value p) \<longrightarrow>
        fst (link_manual_account e uid pl un w)
          = Inl (ValueError (''A '' @ pl @ '' account is already connected''))
        \<and> db (snd (link_manual_account e uid pl un w)) = db w)
   \<and> (lower pl = platform_value p \<and> execute_raises e = None \<and> commit_raises e = None
        \<and> \<not> (\<exists>r \<in> set (db w). user_id r = uid \<and> platform r = platform_value p) \<longrightarrow>
        (\<exists>account. fst (link_manual_account e uid pl un w) = Inr account
           \<and> account_id account = ''manual_'' @ un @ ''_'' @ take 8 uid
           \<and> is_verified account = False \<and> last_verified_at account = None
           \<and> user_id account = uid \<and> platform account = platform_value p
           \<and> username account = Some un
           \<and> db (snd (link_manual_account e uid pl un w)) = db w @ [account]))"
proof (intro conjI impI)
  assume "lower pl \<notin> set (map platform_value all_platforms)"
  from Platform_of_unknown [OF this]
  show "link_manual_account e uid pl un w =
        (Inl (ValueError (''Invalid platform: '' @ pl
                @ ''. Valid: facebook, instagram, twitter, tiktok, youtube'')), w)"
    by (simp add: link_manual_account_def all_platforms_def)
next
  assume a: "lower pl = platform_value p \<and> execute_raises e = None
        \<and> (\<exists>r \<in> set (db w). user_id r = uid \<and> platform r = platform_value p)"
  then have ne: "filter (\<lambda>r. user_id r = uid \<and> platform r = platform_value p) (db w) \<noteq> []"
    by (auto simp: filter_empty_conv)
  show "fst (link_manual_account e uid pl un w)
          = Inl (ValueError (''A '' @ pl @ '' account is already connected''))"
    using a ne by (simp add: link_manual_account_def Platform_of_value get_user_accounts_def
        execute_all_def logger_def)
  show "db (snd (link_manual_account e uid pl un w)) = db w"
    using a ne by (simp add: link_manual_account_def Platform_of_value get_user_accounts_def
        execute_all_def logger_def)
next
  assume a: "lower pl = platform_value p \<and> execute_raises e = None \<and> commit_raises e = None
        \<and> \<not> (\<exists>r \<in> set (db w). user_id r = uid \<and> platform r = platform_value p)"
  then have em: "filter (\<lambda>r. user_id r = uid \<and> platform r = platform_value p) (db w) = []"
    by (auto simp: filter_empty_conv)
  show "\<exists>account. fst (link_manual_account e uid pl un w) = Inr account
           \<and> account_id account = ''manual_'' @ un @ ''_'' @ take 8 uid
           \<and> is_verified account = False \<and> last_verified_at account = None
           \<and> user_id account = uid \<and> platform account = platform_value p
           \<and> username account = Some un
           \<and> db (snd (link_manual_account e uid pl un w)) = db w @ [account]"
    using a em by (simp add: link_manual_account_def Platform_of_value get_user_accounts_def
        execute_all_def logger_def commit_def pending_add_def Let_def)
qed

theorem link_manual_account_spec_witness:
  "link_manual_account demo_env ''u3'' ''LinkedIn'' ''handle'' empty_world =
      (Inl (ValueError ''Invalid platform: LinkedIn. Valid: facebook, instagram, twitter, tiktok, youtube''),
       empty_world)
   \<and> fst (link_manual_account demo_env ''u3'' ''TikTok'' ''handle''
            (empty_world\<lparr>db := [manual_u3]\<rparr>))
        = Inl (ValueError ''A TikTok account is already connected'')
   \<and> (\<exists>account. fst (link_manual_account demo_env ''u3'' ''tiktok'' ''handle'' empty_world) = Inr account
        \<and> account_id account = ''manual_handle_u3'' \<and> is_verified account = False)"
proof -
  have l1: "lower ''LinkedIn'' \<notin> set (map platform_value all_platforms)"
    by (simp add: lower_def lower_char_def all_platforms_def)
  have l2: "lower ''TikTok'' = platform_value TIKTOK \<and> execute_raises demo_env = None
        \<and> (\<exists>r \<in> set (db (empty_world\<lparr>db := [manual_u3]\<rparr>)). user_id r = ''u3'' \<and> platform r = platform_value TIKTOK)"
    by (simp add: lower_def lower_char_def demo_env_def manual_u3_def)
  have l3: "lower ''tiktok'' = platform_value TIKTOK \<and> execute_raises demo_env = None \<and> commit_raises demo_env = None
        \<and> \<not> (\<exists>r \<in> set (db empty_world). user_id r = ''u3'' \<and> platform r = platform_value TIKTOK)"
    by (simp add: lower_def lower_char_def demo_env_def empty_world_def)
  have c1: "link_manual_account demo_env ''u3'' ''LinkedIn'' ''handle'' empty_world =
      (Inl (ValueError ''Invalid platform: LinkedIn. Valid: facebook, instagram, twitter, tiktok, youtube''),
       empty_world)"
    using link_manual_account_spec [where pl="''LinkedIn''" and e=demo_env and uid="''u3''" and un="''handle''" and w=empty_world,
        THEN conjunct1, THEN mp, OF l1] by simp
  have c2: "fst (link_manual_account demo_env ''u3'' ''TikTok'' ''handle''
            (empty_world\<lparr>db := [manual_u3]\<rparr>))
        = Inl (ValueError ''A TikTok account is already connected'')"
    using link_manual_account_spec [where pl="''TikTok''" and p=TIKTOK and e=demo_env and w="empty_world\<lparr>db := [manual_u3]\<rparr>" and uid="''u3''" and un="''handle''",
        THEN conjunct2, THEN conjunct1, THEN mp, OF l2] by simp
  have c3: "\<exists>account. fst (link_manual_account demo_env ''u3'' ''tiktok'' ''handle'' empty_world) = Inr account
        \<and> account_id account = ''manual_handle_u3'' \<and> is_verified account = False"
    using link_manual_account_spec [where pl="''tiktok''" and p=TIKTOK and e=demo_env and w=empty_world and uid="''u3''" and un="''handle''",
        THEN conjunct2, THEN conjunct2, THEN mp, OF l3] by auto
  from c1 c2 c3 show ?thesis by blast
qed

text \<open>
  C4. On every input, \<open>verify_follow\<close>, \<open>verify_comment\<close> and
  \<open>verify_video_engagement\<close> of the TikTok client and \<open>verify_comment\<close> of the YouTube
  client return \<open>False\<close> and raise nothing.
\<close>

theorem capability_gap_returns_false:
  "fst (tiktok_verify_follow c target_user_id) = Inr False
   \<and> fst (tiktok_verify_comment c video_id) = Inr False
   \<and> fst (tiktok_verify_video_engagement c video_id engagement_type) = Inr False
   \<and> fst (youtube_verify_comment c' video_id') = Inr False"
  by (simp add: tiktok_verify_follow_def tiktok_verify_comment_def
      tiktok_verify_video_engagement_def youtube_verify_comment_def)

text \<open>
  C5. \<open>unlink_account\<close> called with a \<open>user_id\<close> that is not the link's owner raises
  \<open>ValueError("Unauthorized: Account belongs to different user")\<close> and leaves the table
  as it was. Called by the owner (the session executing and committing) it returns
  \<open>True\<close> and deletes the row, whatever the revocation does: nothing is assumed about
  the OAuth service, the cipher or the stored platform name. When the revocation
  raises, the failure is logged as a warning.
\<close>

theorem unlink_account_authorization:
  "(execute_raises e = None \<and> find (\<lambda>r. id' r = aid) (db w) = Some account
      \<and> user_id account \<noteq> uid \<longrightarrow>
      fst (unlink_account e aid uid cid csec rv w)
        = Inl (ValueError ''Unauthorized: Account belongs to different user'')
      \<and> db (snd (unlink_account e aid uid cid csec rv w)) = db w)
   \<and> (execute_raises e = None \<and> commit_raises e = None
      \<and> find (\<lambda>r. id' r = aid) (db w) = Some account \<and> user_id account = uid \<longrightarrow>
      fst (unlink_account e aid uid cid csec rv w) = Inr True
      \<and> db (snd (unlink_account e aid uid cid csec rv w)) = pending_delete account (db w)
      \<and> aid \<notin> id' ` set (db (snd (unlink_account e aid uid cid csec rv w))))
   \<and> (execute_raises e = None \<and> commit_raises e = None
      \<and> find (\<lambda>r. id' r = aid) (db w) = Some account \<and> user_id account = uid
      \<and> c \<noteq> [] \<and> s \<noteq> [] \<and> Platform_of (platform account) = Inr p
      \<and> get_access_token e account = Inr tok \<and> oauth_revoke_token e p tok c s = Some exc \<longrightarrow>
      (WARNING, ''Failed to revoke OAuth token'')
        \<in> set (logged (snd (unlink_account e aid uid (Some c) (Some s) True w))))"
proof (intro conjI impI)
  assume a: "execute_raises e = None \<and> find (\<lambda>r. id' r = aid) (db w) = Some account
      \<and> user_id account \<noteq> uid"
  then show "fst (unlink_account e aid uid cid csec rv w)
        = Inl (ValueError ''Unauthorized: Account belongs to different user'')"
    and "db (snd (unlink_account e aid uid cid csec rv w)) = db w"
    by (simp_all add: unlink_account_def get_account_by_id_def execute_first_def logger_def)
next
  assume a: "execute_raises e = None \<and> commit_raises e = None
      \<and> find (\<lambda>r. id' r = aid) (db w) = Some account \<and> user_id account = uid"
  then have ida: "id' account = aid" using find_SomeD [of "\<lambda>r. id' r = aid" "db w" account] by simp
  show r: "fst (unlink_account e aid uid cid csec rv w) = Inr True"
    using a by (simp add: unlink_account_def get_account_by_id_def execute_first_def logger_def
        commit_def Let_def split: option.splits prod.splits)
  show d: "db (snd (unlink_account e aid uid cid csec rv w)) = pending_delete account (db w)"
    using a by (simp add: unlink_account_def get_account_by_id_def execute_first_def logger_def
        commit_def Let_def db_revoke_on_unlink split: option.splits prod.splits)
  show "aid \<notin> id' ` set (db (snd (unlink_account e aid uid cid csec rv w)))"
    using ida by (auto simp: d pending_delete_def)
next
  assume a: "execute_raises e = None \<and> commit_raises e = None
      \<and> find (\<lambda>r. id' r = aid) (db w) = Some account \<and> user_id account = uid
      \<and> c \<noteq> [] \<and> s \<noteq> [] \<and> Platform_of (platform account) = Inr p
      \<and> get_access_token e account = Inr tok \<and> oauth_revoke_token e p tok c s = Some exc"
  then show "(WARNING, ''Failed to revoke OAuth token'')
        \<in> set (logged (snd (unlink_account e aid uid (Some c) (Some s) True w)))"
    by (simp add: unlink_account_def get_account_by_id_def execute_first_def logger_def
        commit_def Let_def revoke_on_unlink_def and_then_def)
qed

theorem unlink_account_authorization_witness:
  "fst (unlink_account revoke_fails_env ''row-1'' ''u2'' (Some ''cid'') (Some ''secret'') True demo_world)
      = Inl (ValueError ''Unauthorized: Account belongs to different user'')
   \<and> db (snd (unlink_account revoke_fails_env ''row-1'' ''u2'' (Some ''cid'') (Some ''secret'') True demo_world))
      = [acct_1]
   \<and> fst (unlink_account revoke_fails_env ''row-1'' ''u1'' (Some ''cid'') (Some ''secret'') True demo_world)
      = Inr True
   \<and> db (snd (unlink_account revoke_fails_env ''row-1'' ''u1'' (Some ''cid'') (Some ''secret'') True demo_world))
      = []
   \<and> (WARNING, ''Failed to revoke OAuth token'')
        \<in> set (logged (snd (unlink_account revoke_fails_env ''row-1'' ''u1'' (Some ''cid'') (Some ''secret'') True demo_world)))"
proof -
  have f: "find (\<lambda>r. id' r = ''row-1'') (db demo_world) = Some acct_1"
    by (simp add: demo_world_def acct_1_def)
  have ex: "execute_raises revoke_fails_env = None" and cm: "commit_raises revoke_fails_env = None"
    by (simp_all add: revoke_fails_env_def demo_env_def)
  have h1: "execute_raises revoke_fails_env = None \<and> find (\<lambda>r. id' r = ''row-1'') (db demo_world) = Some acct_1
      \<and> user_id acct_1 \<noteq> ''u2''"
    using f ex by (simp add: acct_1_def)
  have h2: "execute_raises revoke_fails_env = None \<and> commit_raises revoke_fails_env = None
      \<and> find (\<lambda>r. id' r = ''row-1'') (db demo_world) = Some acct_1 \<and> user_id acct_1 = ''u1''"
    using f ex cm by (simp add: acct_1_def)
  have h3: "execute_raises revoke_fails_env = None \<and> commit_raises revoke_fails_env = None
      \<and> find (\<lambda>r. id' r = ''row-1'') (db demo_world) = Some acct_1 \<and> user_id acct_1 = ''u1''
      \<and> ''cid'' \<noteq> [] \<and> ''secret'' \<noteq> [] \<and> Platform_of (platform acct_1) = Inr TWITTER
      \<and> get_access_token revoke_fails_env acct_1 = Inr ''tok1''
      \<and> oauth_revoke_token revoke_fails_env TWITTER ''tok1'' ''cid'' ''secret'' = Some (OtherError ''revoke failed'')"
    using h2 by (simp add: acct_1_def Platform_of_def all_platforms_def get_access_token_def
        revoke_fails_env_def demo_env_def)
  note T = unlink_account_authorization [where e=revoke_fails_env and aid="''row-1''" and w=demo_world
      and account=acct_1 and cid="Some ''cid''" and csec="Some ''secret''" and rv=True
      and c="''cid''" and s="''secret''" and p=TWITTER and tok="''tok1''" and exc="OtherError ''revoke failed''"]
  have c1: "fst (unlink_account revoke_fails_env ''row-1'' ''u2'' (Some ''cid'') (Some ''secret'') True demo_world)
      = Inl (ValueError ''Unauthorized: Account belongs to different user'')
   \<and> db (snd (unlink_account revoke_fails_env ''row-1'' ''u2'' (Some ''cid'') (Some ''secret'') True demo_world))
      = [acct_1]"
    using T [where uid="''u2''", THEN conjunct1, THEN mp, OF h1] by (simp add: demo_world_def)
  have c2: "fst (unlink_account revoke_fails_env ''row-1'' ''u1'' (Some ''cid'') (Some ''secret'') True demo_world)
      = Inr True
   \<and> db (snd (unlink_account revoke_fails_env ''row-1'' ''u1'' (Some ''cid'') (Some ''secret'') True demo_world))
      = []"
    using T [where uid="''u1''", THEN conjunct2, THEN conjunct1, THEN mp, OF h2]
    by (simp add: demo_world_def pending_delete_def)
  have c3: "(WARNING, ''Failed to revoke OAuth token'')
        \<in> set (logged (snd (unlink_account revoke_fails_env ''row-1'' ''u1'' (Some ''cid'') (Some ''secret'') True demo_world)))"
    using T [where uid="''u1''", THEN conjunct2, THEN conjunct2, THEN mp, OF h3] by simp
  from c1 c2 c3 show ?thesis by blast
qed

text \<open>
  C6 at a failing input: the ownership check succeeds and the commit raises. The
  handler re-raises and the client \<open>verify_account\<close> created is never closed.
\<close>

theorem verify_account_leaves_client_open:
  "fst (verify_account (tiktok_env\<lparr>commit_raises := Some (OtherError ''connection lost'')\<rparr>)
          ''row-7'' ''cid'' ''secret'' tiktok_world)
     = Inl (ValueError ''Failed to verify account: connection lost'')
   \<and> clients_created (snd (verify_account (tiktok_env\<lparr>commit_raises := Some (OtherError ''connection lost'')\<rparr>)
          ''row-7'' ''cid'' ''secret'' tiktok_world)) = 1
   \<and> clients_closed (snd (verify_account (tiktok_env\<lparr>commit_raises := Some (OtherError ''connection lost'')\<rparr>)
          ''row-7'' ''cid'' ''secret'' tiktok_world)) = 0"
  by (simp add: verify_account_def get_account_by_id_def execute_first_def tiktok_env_def demo_env_def
      tiktok_world_def acct_tiktok_def Platform_of_def all_platforms_def get_access_token_def and_then_def
      create_platform_client_def verify_account_ownership_def tiktok_verify_account_ownership_def
      tiktok_get_user_profile_def tiktok_response_def commit_def reraise_def logger_def emit_def close_def)

text \<open>
  C9 at a failing input: TikTok returns a non-empty \<open>display_name\<close> for the link's
  owner, and \<open>refresh_account\<close>, which reads the top level of the dictionary the client
  returns, leaves the cached \<open>display_name\<close> as it was.
\<close>

theorem refresh_account_ignores_tiktok_profile:
  "and_then (transport tiktok_env TIKTOK ''tok7'') (\<lambda>response.
     and_then (dict_get response ''data'' (JDict [])) (\<lambda>data.
     and_then (dict_get data ''user'' (JDict [])) (\<lambda>user_data.
     dict_get user_data ''display_name'' JNull))) = Inr (JStr ''New Name'')
   \<and> display_name acct_tiktok = Some ''Old Name''
   \<and> fst (refresh_account tiktok_env ''u7'' TIKTOK tiktok_world) = Inr acct_tiktok
   \<and> db (snd (refresh_account tiktok_env ''u7'' TIKTOK tiktok_world)) = [acct_tiktok]"
  by (simp add: refresh_account_def get_user_accounts_def execute_all_def tiktok_env_def demo_env_def
      tiktok_world_def acct_tiktok_def get_access_token_def and_then_def
      create_platform_client_def get_user_profile_def refresh_account_body_def overlay_profile_def
      tiktok_get_user_profile_def tiktok_response_def commit_def reraise_def logger_def emit_def close_def
      pending_update_def py_or_def)

text \<open>
  C1, as the source has it. On a store with distinct primary keys in which no two rows
  share \<open>(platform, account_id)\<close>, both properties still hold after \<open>link_account\<close>
  (the new row's primary key being fresh), \<open>verify_account\<close>, \<open>unlink_account\<close>,
  \<open>disconnect_account\<close>, \<open>refresh_account\<close> and \<open>refresh_all_tokens\<close>, whatever the
  collaborators answer. \<open>link_account\<close> for a pair linked to a different user raises
  \<open>ValueError("Account ... is already linked to another user")\<close> and leaves the table
  unchanged; for a pair linked to the same user it replaces the credentials of the
  existing row in place, and the number of rows of that
  \<open>(user, platform, account_id)\<close> triple is 1 before and after.
\<close>

theorem link_uniqueness_preserved:
  "(store_ok (db w) \<and> generated_id e \<notin> id' ` set (db w) \<longrightarrow>
      store_ok (db (snd (link_account e uid p aid tok rt ex sc un dn w))))
   \<and> (execute_raises e = None
       \<and> find (\<lambda>r. platform r = platform_value p \<and> account_id r = aid) (db w) = Some existing
       \<and> user_id existing \<noteq> uid \<longrightarrow>
      fst (link_account e uid p aid tok rt ex sc un dn w)
        = Inl (ValueError (''Account '' @ aid @ '' on '' @ platform_value p
                 @ '' is already linked to another user''))
      \<and> db (snd (link_account e uid p aid tok rt ex sc un dn w)) = db w)
   \<and> (store_ok (db w) \<and> execute_raises e = None \<and> commit_raises e = None
       \<and> find (\<lambda>r. platform r = platform_value p \<and> account_id r = aid) (db w) = Some existing
       \<and> user_id existing = uid \<longrightarrow>
      (\<exists>a. fst (link_account e uid p aid tok rt ex sc un dn w) = Inr a
         \<and> id' a = id' existing
         \<and> access_token a = encrypt_token e tok
         \<and> refresh_token a = map_option (encrypt_token e) rt
         \<and> expires_at a = ex
         \<and> db (snd (link_account e uid p aid tok rt ex sc un dn w)) = pending_update a (db w)
         \<and> map id' (db (snd (link_account e uid p aid tok rt ex sc un dn w))) = map id' (db w)
         \<and> link_count uid (platform_value p) aid (db w) = 1
         \<and> link_count uid (platform_value p) aid
              (db (snd (link_account e uid p aid tok rt ex sc un dn w))) = 1))
   \<and> (store_ok (db w) \<longrightarrow>
      store_ok (db (snd (verify_account e row_id cid cs w)))
      \<and> store_ok (db (snd (unlink_account e row_id uid' ocid ocs rv w)))
      \<and> store_ok (db (snd (disconnect_account e uid' pl w)))
      \<and> store_ok (db (snd (refresh_account e uid' p' w)))
      \<and> store_ok (db (snd (refresh_all_tokens e cid cs h w))))"
proof (intro conjI impI)
  assume "store_ok (db w) \<and> generated_id e \<notin> id' ` set (db w)"
  then show "store_ok (db (snd (link_account e uid p aid tok rt ex sc un dn w)))"
    using store_ok_link_account by blast
next
  assume a: "execute_raises e = None
       \<and> find (\<lambda>r. platform r = platform_value p \<and> account_id r = aid) (db w) = Some existing
       \<and> user_id existing \<noteq> uid"
  then show "fst (link_account e uid p aid tok rt ex sc un dn w)
        = Inl (ValueError (''Account '' @ aid @ '' on '' @ platform_value p
                 @ '' is already linked to another user''))"
    and "db (snd (link_account e uid p aid tok rt ex sc un dn w)) = db w"
    by (simp_all add: link_account_def check_duplicate_account_def execute_first_def db_logger)
next
  assume a: "store_ok (db w) \<and> execute_raises e = None \<and> commit_raises e = None
       \<and> find (\<lambda>r. platform r = platform_value p \<and> account_id r = aid) (db w) = Some existing
       \<and> user_id existing = uid"
  let ?a = "(update_tokens e existing tok rt ex)\<lparr>scope := sc, username := un, display_name := dn\<rparr>"
  let ?res = "link_account e uid p aid tok rt ex sc un dn w"
  have s: "store_ok (db w)" and d: "distinct (map id' (db w))" using a by (simp_all add: store_ok_def)
  have f: "find (\<lambda>r. platform r = platform_value p \<and> account_id r = aid) (db w) = Some existing"
    using a by simp
  have m: "existing \<in> set (db w)" and pe: "platform existing = platform_value p"
    and ae: "account_id existing = aid" and ue: "user_id existing = uid"
    using find_SomeD [OF f] a by simp_all
  have r: "fst ?res = Inr ?a" and dbr: "db (snd ?res) = pending_update ?a (db w)"
    using a by (simp_all add: link_account_def check_duplicate_account_def execute_first_def
        commit_def db_logger Let_def)
  have ia: "id' ?a = id' existing" and ka: "link_key ?a = link_key existing"
    by (simp_all add: update_tokens_def link_key_def)
  have s': "store_ok (pending_update ?a (db w))" by (rule store_ok_update [OF s m ia ka])
  have mi: "map id' (pending_update ?a (db w)) = map id' (db w)"
    using map_pending_update [of "db w" existing ?a id'] d m ia by simp
  have "find (\<lambda>r. id' r = id' existing) (db w) \<noteq> None"
    using m by (auto simp: find_None_iff)
  then obtain y where "find (\<lambda>r. id' r = id' ?a) (db w) = Some y" using ia by auto
  from find_pending_update [OF this]
  have m': "?a \<in> set (pending_update ?a (db w))" using find_SomeD by fast
  have c0: "link_count uid (platform_value p) aid (db w) = 1"
    using link_count_one [of "db w" existing] s m pe ae ue by (simp add: store_ok_def)
  have "link_count (user_id ?a) (platform ?a) (account_id ?a) (pending_update ?a (db w)) = 1"
    using s' m' by (intro link_count_one) (simp_all add: store_ok_def)
  then have c1: "link_count uid (platform_value p) aid (pending_update ?a (db w)) = 1"
    using pe ae ue by (simp add: update_tokens_def)
  show "\<exists>a. fst ?res = Inr a
         \<and> id' a = id' existing
         \<and> access_token a = encrypt_token e tok
         \<and> refresh_token a = map_option (encrypt_token e) rt
         \<and> expires_at a = ex
         \<and> db (snd ?res) = pending_update a (db w)
         \<and> map id' (db (snd ?res)) = map id' (db w)
         \<and> link_count uid (platform_value p) aid (db w) = 1
         \<and> link_count uid (platform_value p) aid (db (snd ?res)) = 1"
    using r dbr mi c0 c1 by (intro exI [of _ ?a]) (simp add: update_tokens_def)
next
  assume s: "store_ok (db w)"
  show "store_ok (db (snd (verify_account e row_id cid cs w)))"
    by (rule store_ok_verify_account [OF s])
  show "store_ok (db (snd (unlink_account e row_id uid' ocid ocs rv w)))"
    by (rule store_ok_unlink_account [OF s])
  show "store_ok (db (snd (disconnect_account e uid' pl w)))"
    by (rule store_ok_disconnect_account [OF s])
  show "store_ok (db (snd (refresh_account e uid' p' w)))"
    by (rule store_ok_refresh_account [OF s])
  show "store_ok (db (snd (refresh_all_tokens e cid cs h w)))"
    by (rule store_ok_refresh_all_tokens [OF s])
qed

theorem link_uniqueness_preserved_witness:
  "store_ok (db demo_world)
   \<and> store_ok (db (snd (link_account demo_env ''u2'' TWITTER ''acct_9'' ''tok9'' None None None None
                          None demo_world)))
   \<and> fst (link_account demo_env ''u2'' TWITTER ''acct_1'' ''tok9'' None None None None None
            demo_world)
       = Inl (ValueError ''Account acct_1 on twitter is already linked to another user'')
   \<and> db (snd (link_account demo_env ''u2'' TWITTER ''acct_1'' ''tok9'' None None None None None
                 demo_world)) = db demo_world
   \<and> link_count ''u1'' ''twitter'' ''acct_1'' (db demo_world) = 1
   \<and> link_count ''u1'' ''twitter'' ''acct_1''
        (db (snd (link_account demo_env ''u1'' TWITTER ''acct_1'' ''tok2'' None None None None None
                    demo_world))) = 1
   \<and> store_ok (db (snd (verify_account demo_env ''row-1'' ''cid'' ''secret'' demo_world)))
   \<and> store_ok (db (snd (refresh_all_tokens demo_env ''cid'' ''secret'' 24 demo_world)))"
proof -
  have s: "store_ok (db demo_world)"
    by (simp add: store_ok_def unique_links_def demo_world_def)
  have fresh: "generated_id demo_env \<notin> id' ` set (db demo_world)"
    by (simp add: demo_env_def demo_world_def acct_1_def)
  have ex: "execute_raises demo_env = None" and cm: "commit_raises demo_env = None"
    by (simp_all add: demo_env_def)
  have f: "find (\<lambda>r. platform r = platform_value TWITTER \<and> account_id r = ''acct_1'')
             (db demo_world) = Some acct_1"
    by (simp add: demo_world_def acct_1_def)
  have u: "user_id acct_1 = ''u1''" by (simp add: acct_1_def)
  note T = link_uniqueness_preserved [where e=demo_env and w=demo_world and p=TWITTER
      and tok="''tok9''" and rt=None and ex=None and sc=None and un=None and dn=None
      and row_id="''row-1''" and cid="''cid''" and cs="''secret''" and h=24 and existing=acct_1]
  have c1: "store_ok (db (snd (link_account demo_env ''u2'' TWITTER ''acct_9'' ''tok9'' None None None None
                          None demo_world)))"
    using T [where uid="''u2''" and aid="''acct_9''", THEN conjunct1, THEN mp] s fresh by blast
  have c2: "fst (link_account demo_env ''u2'' TWITTER ''acct_1'' ''tok9'' None None None None None
            demo_world)
       = Inl (ValueError ''Account acct_1 on twitter is already linked to another user'')
   \<and> db (snd (link_account demo_env ''u2'' TWITTER ''acct_1'' ''tok9'' None None None None None
                 demo_world)) = db demo_world"
    using T [where uid="''u2''" and aid="''acct_1''", THEN conjunct2, THEN conjunct1, THEN mp]
      ex f u by simp
  have c3: "link_count ''u1'' ''twitter'' ''acct_1'' (db demo_world) = 1
   \<and> link_count ''u1'' ''twitter'' ''acct_1''
        (db (snd (link_account demo_env ''u1'' TWITTER ''acct_1'' ''tok2'' None None None None None
                    demo_world))) = 1"
    using link_uniqueness_preserved [where e=demo_env and w=demo_world and p=TWITTER
      and tok="''tok2''" and rt=None and ex=None and sc=None and un=None and dn=None
      and existing=acct_1 and uid="''u1''" and aid="''acct_1''",
      THEN conjunct2, THEN conjunct2, THEN conjunct1, THEN mp]
      s ex cm f u by auto
  have c4: "store_ok (db (snd (verify_account demo_env ''row-1'' ''cid'' ''secret'' demo_world)))
   \<and> store_ok (db (snd (refresh_all_tokens demo_env ''cid'' ''secret'' 24 demo_world)))"
    using T [where uid="''u2''" and aid="''acct_1''", THEN conjunct2, THEN conjunct2, THEN conjunct2,
        THEN mp, OF s] by blast
  from s c1 c2 c3 c4 show ?thesis by blast
qed

text \<open>
  C1 as stated (every operation preserves uniqueness) fails for
  \<open>link_manual_account\<close>: it checks only that the user has no row for the platform, and
  the identifier it synthesizes keeps eight characters of the user id.
\<close>

theorem link_manual_account_collision_counterexample:
  "db (snd (link_manual_account (demo_env\<lparr>generated_id := ''row-8''\<rparr>)
              ''3f2a9c1e-0001'' ''tiktok'' ''x'' empty_world)) = db collide_world
   \<and> unique_links (db collide_world)
   \<and> db (snd (link_manual_account demo_env ''3f2a9c1e-0002'' ''tiktok'' ''x'' collide_world))
       = [manual_a, manual_b]
   \<and> user_id manual_a \<noteq> user_id manual_b
   \<and> link_key manual_a = link_key manual_b
   \<and> \<not> unique_links (db (snd (link_manual_account demo_env ''3f2a9c1e-0002'' ''tiktok'' ''x''
                                 collide_world)))"
  by (simp add: link_manual_account_def lower_def lower_char_def Platform_of_def all_platforms_def
      get_user_accounts_def execute_all_def demo_env_def empty_world_def collide_world_def
      manual_a_def manual_b_def commit_def pending_add_def logger_def unique_links_def link_key_def
      Let_def)

text \<open>
  C2. When the ownership check of \<open>verify_account\<close> returns \<open>False\<close>, the operation
  returns \<open>False\<close> and the table is exactly as before. When it returns \<open>True\<close> and the
  commit succeeds, the operation returns \<open>True\<close> and the stored row is the link with
  \<open>is_verified = True\<close> and \<open>last_verified_at\<close> stamped with the current time. After
  \<open>verify_account\<close>, whatever the collaborators answer, a verified row either was
  verified before or is the row just verified by an ownership check that returned
  \<open>True\<close>, and no row that was verified has become unverified. No other operation
  makes a row verified.
\<close>

theorem verified_only_by_ownership_check:
  "(execute_raises e = None \<and> find (\<lambda>r. id' r = row_id) (db w) = Some account
      \<and> Platform_of (platform account) = Inr p \<and> get_access_token e account = Inr tok
      \<and> fst (verify_account_ownership e (p, tok) (account_id account)) = Inr False \<longrightarrow>
      fst (verify_account e row_id cid cs w) = Inr False
      \<and> db (snd (verify_account e row_id cid cs w)) = db w)
   \<and> (execute_raises e = None \<and> commit_raises e = None
      \<and> find (\<lambda>r. id' r = row_id) (db w) = Some account
      \<and> Platform_of (platform account) = Inr p \<and> get_access_token e account = Inr tok
      \<and> fst (verify_account_ownership e (p, tok) (account_id account)) = Inr True \<longrightarrow>
      fst (verify_account e row_id cid cs w) = Inr True
      \<and> db (snd (verify_account e row_id cid cs w))
          = pending_update (account\<lparr>is_verified := True, last_verified_at := Some (utcnow e)\<rparr>) (db w)
      \<and> find (\<lambda>r. id' r = row_id) (db (snd (verify_account e row_id cid cs w)))
          = Some (account\<lparr>is_verified := True, last_verified_at := Some (utcnow e)\<rparr>))
   \<and> (\<forall>r' \<in> set (db (snd (verify_account e row_id cid cs w))). is_verified r' \<longrightarrow>
        (\<exists>r \<in> set (db w). id' r = id' r' \<and> is_verified r)
        \<or> (id' r' = row_id \<and> last_verified_at r' = Some (utcnow e)
           \<and> fst (verify_account e row_id cid cs w) = Inr True
           \<and> (\<exists>account p tok. find (\<lambda>r. id' r = row_id) (db w) = Some account
                 \<and> Platform_of (platform account) = Inr p \<and> get_access_token e account = Inr tok
                 \<and> fst (verify_account_ownership e (p, tok) (account_id account)) = Inr True)))
   \<and> (\<forall>r \<in> set (db w). is_verified r \<longrightarrow>
        (\<exists>r' \<in> set (db (snd (verify_account e row_id cid cs w))). id' r' = id' r \<and> is_verified r'))
   \<and> no_new_verified (db w) (db (snd (link_account e uid pf aid atok rt ex sc un dn w)))
   \<and> no_new_verified (db w) (db (snd (link_manual_account e uid pname un' w)))
   \<and> no_new_verified (db w) (db (snd (unlink_account e row_id uid ocid ocs rv w)))
   \<and> no_new_verified (db w) (db (snd (disconnect_account e uid pname w)))
   \<and> no_new_verified (db w) (db (snd (refresh_account e uid pf w)))
   \<and> no_new_verified (db w) (db (snd (refresh_all_tokens e cid cs h w)))"
proof (intro conjI impI ballI)
  assume a: "execute_raises e = None \<and> find (\<lambda>r. id' r = row_id) (db w) = Some account
      \<and> Platform_of (platform account) = Inr p \<and> get_access_token e account = Inr tok
      \<and> fst (verify_account_ownership e (p, tok) (account_id account)) = Inr False"
  then show "fst (verify_account e row_id cid cs w) = Inr False"
    and "db (snd (verify_account e row_id cid cs w)) = db w"
    using verify_account_result [of e row_id w account p tok False cid cs] by simp_all
next
  assume a: "execute_raises e = None \<and> commit_raises e = None
      \<and> find (\<lambda>r. id' r = row_id) (db w) = Some account
      \<and> Platform_of (platform account) = Inr p \<and> get_access_token e account = Inr tok
      \<and> fst (verify_account_ownership e (p, tok) (account_id account)) = Inr True"
  let ?a = "account\<lparr>is_verified := True, last_verified_at := Some (utcnow e)\<rparr>"
  have mv: "mark_verified e account = ?a" by (simp add: mark_verified_def)
  show "fst (verify_account e row_id cid cs w) = Inr True"
    using a verify_account_result [of e row_id w account p tok True cid cs] by simp
  show d: "db (snd (verify_account e row_id cid cs w)) = pending_update ?a (db w)"
    using a verify_account_result [of e row_id w account p tok True cid cs] mv by simp
  have ia: "id' account = row_id" using a find_SomeD [of "\<lambda>r. id' r = row_id" "db w" account] by simp
  have "find (\<lambda>r. id' r = id' ?a) (db w) = Some account" using a ia by simp
  from find_pending_update [OF this]
  show "find (\<lambda>r. id' r = row_id) (db (snd (verify_account e row_id cid cs w))) = Some ?a"
    using d ia by simp
next
  fix r' assume m: "r' \<in> set (db (snd (verify_account e row_id cid cs w)))" and v: "is_verified r'"
  from verify_account_db [of e row_id cid cs w]
  consider (same) "db (snd (verify_account e row_id cid cs w)) = db w"
    | (upd) account p tok where "find (\<lambda>r. id' r = row_id) (db w) = Some account"
        "Platform_of (platform account) = Inr p" "get_access_token e account = Inr tok"
        "fst (verify_account_ownership e (p, tok) (account_id account)) = Inr True"
        "fst (verify_account e row_id cid cs w) = Inr True"
        "db (snd (verify_account e row_id cid cs w)) = pending_update (mark_verified e account) (db w)"
    by blast
  then show "(\<exists>r \<in> set (db w). id' r = id' r' \<and> is_verified r)
        \<or> (id' r' = row_id \<and> last_verified_at r' = Some (utcnow e)
           \<and> fst (verify_account e row_id cid cs w) = Inr True
           \<and> (\<exists>account p tok. find (\<lambda>r. id' r = row_id) (db w) = Some account
                 \<and> Platform_of (platform account) = Inr p \<and> get_access_token e account = Inr tok
                 \<and> fst (verify_account_ownership e (p, tok) (account_id account)) = Inr True))"
  proof cases
    case same then show ?thesis using m v by auto
  next
    case upd
    have ia: "id' account = row_id"
      using find_SomeD [OF upd(1)] by simp
    from m upd(6) have "r' = mark_verified e account \<or> r' \<in> set (db w)"
      using set_pending_update by simp
    then show ?thesis
    proof
      assume r: "r' = mark_verified e account"
      have "id' r' = row_id \<and> last_verified_at r' = Some (utcnow e)"
        using r ia by (simp add: mark_verified_def)
      then show ?thesis using upd(1-5) by blast
    next
      assume "r' \<in> set (db w)" then show ?thesis using v by blast
    qed
  qed
next
  fix r assume m: "r \<in> set (db w)" and v: "is_verified r"
  from verify_account_db [of e row_id cid cs w]
  consider (same) "db (snd (verify_account e row_id cid cs w)) = db w"
    | (upd) account where
        "db (snd (verify_account e row_id cid cs w)) = pending_update (mark_verified e account) (db w)"
    by blast
  then show "\<exists>r' \<in> set (db (snd (verify_account e row_id cid cs w))). id' r' = id' r \<and> is_verified r'"
  proof cases
    case same then show ?thesis using m v by auto
  next
    case upd
    show ?thesis
    proof (cases "id' r = id' (mark_verified e account)")
      case True
      have mem: "mark_verified e account \<in> set (db (snd (verify_account e row_id cid cs w)))"
        unfolding upd using m True by (force simp: pending_update_def)
      have "id' (mark_verified e account) = id' r \<and> is_verified (mark_verified e account)"
        using True by (simp add: mark_verified_def)
      then show ?thesis using mem by blast
    next
      case False
      then have "r \<in> set (db (snd (verify_account e row_id cid cs w)))"
        unfolding upd using m by (force simp: pending_update_def)
      then show ?thesis using v by blast
    qed
  qed
next
  show "no_new_verified (db w) (db (snd (link_account e uid pf aid atok rt ex sc un dn w)))"
    by (rule no_new_verified_link_account)
  show "no_new_verified (db w) (db (snd (link_manual_account e uid pname un' w)))"
    by (rule no_new_verified_link_manual_account)
  show "no_new_verified (db w) (db (snd (unlink_account e row_id uid ocid ocs rv w)))"
    by (rule no_new_verified_unlink_account)
  show "no_new_verified (db w) (db (snd (disconnect_account e uid pname w)))"
    by (rule no_new_verified_disconnect_account)
  show "no_new_verified (db w) (db (snd (refresh_account e uid pf w)))"
    by (rule no_new_verified_refresh_account)
  show "no_new_verified (db w) (db (snd (refresh_all_tokens e cid cs h w)))"
    by (rule no_new_verified_refresh_all_tokens)
qed

theorem verified_only_by_ownership_check_witness:
  "fst (verify_account mismatch_env ''row-7'' ''cid'' ''secret'' verified_world) = Inr False
   \<and> db (snd (verify_account mismatch_env ''row-7'' ''cid'' ''secret'' verified_world))
       = [acct_tiktok\<lparr>is_verified := True, last_verified_at := Some 500\<rparr>]
   \<and> is_verified acct_tiktok = False
   \<and> fst (verify_account tiktok_env ''row-7'' ''cid'' ''secret'' tiktok_world) = Inr True
   \<and> find (\<lambda>r. id' r = ''row-7'')
        (db (snd (verify_account tiktok_env ''row-7'' ''cid'' ''secret'' tiktok_world)))
       = Some (acct_tiktok\<lparr>is_verified := True, last_verified_at := Some 1000\<rparr>)"
proof -
  let ?v = "acct_tiktok\<lparr>is_verified := True, last_verified_at := Some 500\<rparr>"
  have h1: "execute_raises mismatch_env = None
      \<and> find (\<lambda>r. id' r = ''row-7'') (db verified_world) = Some ?v
      \<and> Platform_of (platform ?v) = Inr TIKTOK \<and> get_access_token mismatch_env ?v = Inr ''tok7''
      \<and> fst (verify_account_ownership mismatch_env (TIKTOK, ''tok7'') (account_id ?v)) = Inr False"
    by (simp add: mismatch_env_def demo_env_def verified_world_def acct_tiktok_def Platform_of_def
        all_platforms_def get_access_token_def verify_account_ownership_def
        tiktok_verify_account_ownership_def tiktok_get_user_profile_def and_then_def)
  have h2: "execute_raises tiktok_env = None \<and> commit_raises tiktok_env = None
      \<and> find (\<lambda>r. id' r = ''row-7'') (db tiktok_world) = Some acct_tiktok
      \<and> Platform_of (platform acct_tiktok) = Inr TIKTOK
      \<and> get_access_token tiktok_env acct_tiktok = Inr ''tok7''
      \<and> fst (verify_account_ownership tiktok_env (TIKTOK, ''tok7'') (account_id acct_tiktok)) = Inr True"
    by (simp add: tiktok_env_def demo_env_def tiktok_world_def acct_tiktok_def Platform_of_def
        all_platforms_def get_access_token_def verify_account_ownership_def
        tiktok_verify_account_ownership_def tiktok_get_user_profile_def and_then_def
        tiktok_response_def)
  have now: "utcnow tiktok_env = 1000" by (simp add: tiktok_env_def demo_env_def)
  have c1: "fst (verify_account mismatch_env ''row-7'' ''cid'' ''secret'' verified_world) = Inr False
   \<and> db (snd (verify_account mismatch_env ''row-7'' ''cid'' ''secret'' verified_world)) = [?v]"
    using verified_only_by_ownership_check [where e=mismatch_env and row_id="''row-7''"
        and w=verified_world and account="?v" and p=TIKTOK and tok="''tok7''" and cid="''cid''"
        and cs="''secret''", THEN conjunct1, THEN mp, OF h1]
    by (simp add: verified_world_def)
  have c2: "fst (verify_account tiktok_env ''row-7'' ''cid'' ''secret'' tiktok_world) = Inr True
   \<and> find (\<lambda>r. id' r = ''row-7'')
        (db (snd (verify_account tiktok_env ''row-7'' ''cid'' ''secret'' tiktok_world)))
       = Some (acct_tiktok\<lparr>is_verified := True, last_verified_at := Some 1000\<rparr>)"
    using verified_only_by_ownership_check [where e=tiktok_env and row_id="''row-7''"
        and w=tiktok_world and account=acct_tiktok and p=TIKTOK and tok="''tok7''" and cid="''cid''"
        and cs="''secret''", THEN conjunct2, THEN conjunct1, THEN mp, OF h2]
    unfolding now by blast
  have c3: "is_verified acct_tiktok = False" by (simp add: acct_tiktok_def)
  from c1 c2 c3 show ?thesis by blast
qed

text \<open>
  C7, as the source has it. \<open>refresh_all_tokens\<close> returns the counters whenever the
  threshold can be computed and the candidate query and the final commit succeed. Then
  no exception of a single candidate is raised: \<open>failed\<close> is the number of candidates
  whose processing raised, \<open>skipped\<close> and \<open>success\<close> the numbers of those skipped and
  refreshed, the three add up to the number of candidates, and the log gains exactly
  one \<open>"Failed to refresh token"\<close> error record for each failed candidate. When the
  threshold computation raises (\<open>OverflowError\<close> for hours out of range), or the query
  or the commit raises, the caller receives
  \<open>ValueError("Failed to refresh tokens: ...")\<close>, with nothing stored.
\<close>

theorem refresh_all_tokens_counts_or_error:
  "(refresh_threshold e h = Inr threshold \<and> execute_raises e = None \<and> commit_raises e = None \<longrightarrow>
      (\<exists>st w'. refresh_all_tokens e cid cs h w = (Inr st, w')
         \<and> failed st
             = length (filter (item_raises e cid cs) (filter (refresh_candidate threshold) (db w)))
         \<and> skipped st
             = length (filter (item_skipped e cid cs) (filter (refresh_candidate threshold) (db w)))
         \<and> success st
             = length (filter (item_refreshed e cid cs) (filter (refresh_candidate threshold) (db w)))
         \<and> success st + failed st + skipped st
             = length (filter (refresh_candidate threshold) (db w))
         \<and> failure_records (logged w') = failure_records (logged w) + failed st))
   \<and> (refresh_threshold e h = Inl exc \<longrightarrow>
      fst (refresh_all_tokens e cid cs h w) = Inl (ValueError (''Failed to refresh tokens: '' @ str exc))
      \<and> db (snd (refresh_all_tokens e cid cs h w)) = db w)
   \<and> (refresh_threshold e h = Inr threshold \<and> execute_raises e = Some exc \<longrightarrow>
      fst (refresh_all_tokens e cid cs h w) = Inl (ValueError (''Failed to refresh tokens: '' @ str exc))
      \<and> db (snd (refresh_all_tokens e cid cs h w)) = db w)
   \<and> (refresh_threshold e h = Inr threshold \<and> execute_raises e = None
       \<and> commit_raises e = Some exc \<longrightarrow>
      fst (refresh_all_tokens e cid cs h w) = Inl (ValueError (''Failed to refresh tokens: '' @ str exc))
      \<and> db (snd (refresh_all_tokens e cid cs h w)) = db w)"
proof (intro conjI impI)
  assume a: "refresh_threshold e h = Inr threshold \<and> execute_raises e = None \<and> commit_raises e = None"
  let ?accounts = "filter (refresh_candidate threshold) (db w)"
  let ?init = "\<lparr>success = 0, failed = 0, skipped = 0\<rparr>"
  obtain st pending w1 where l: "refresh_loop e cid cs ?accounts (?init, db w, w) = (st, pending, w1)"
    by (cases "refresh_loop e cid cs ?accounts (?init, db w, w)") auto
  have res: "refresh_all_tokens e cid cs h w
               = (Inr st, logger INFO ''Token refresh batch completed'' (w1\<lparr>db := pending\<rparr>))"
    using a l by (simp add: refresh_all_tokens_def execute_all_def commit_def)
  have c: "success st = length (filter (item_refreshed e cid cs) ?accounts)
         \<and> failed st = length (filter (item_raises e cid cs) ?accounts)
         \<and> skipped st = length (filter (item_skipped e cid cs) ?accounts)"
    using refresh_loop_counts [of e cid cs ?accounts ?init "db w" w] l by simp
  have t: "success st + failed st + skipped st = length ?accounts"
    using c item_partition [of e cid cs ?accounts] by simp
  have lg: "failure_records (logged w1) = failure_records (logged w) + failed st"
    using refresh_loop_failure_records [of e cid cs ?accounts ?init "db w" w] l c by simp
  have lg': "failure_records (logged (logger INFO ''Token refresh batch completed'' (w1\<lparr>db := pending\<rparr>)))
               = failure_records (logged w) + failed st"
    using lg by (simp add: failure_records_def logger_def)
  show "\<exists>st w'. refresh_all_tokens e cid cs h w = (Inr st, w')
         \<and> failed st = length (filter (item_raises e cid cs) ?accounts)
         \<and> skipped st = length (filter (item_skipped e cid cs) ?accounts)
         \<and> success st = length (filter (item_refreshed e cid cs) ?accounts)
         \<and> success st + failed st + skipped st = length ?accounts
         \<and> failure_records (logged w') = failure_records (logged w) + failed st"
    using res c t lg' by blast
next
  assume "refresh_threshold e h = Inl exc"
  then show "fst (refresh_all_tokens e cid cs h w) = Inl (ValueError (''Failed to refresh tokens: '' @ str exc))"
    and "db (snd (refresh_all_tokens e cid cs h w)) = db w"
    by (simp_all add: refresh_all_tokens_def logger_def)
next
  assume "refresh_threshold e h = Inr threshold \<and> execute_raises e = Some exc"
  then show "fst (refresh_all_tokens e cid cs h w) = Inl (ValueError (''Failed to refresh tokens: '' @ str exc))"
    and "db (snd (refresh_all_tokens e cid cs h w)) = db w"
    by (simp_all add: refresh_all_tokens_def execute_all_def logger_def)
next
  assume a: "refresh_threshold e h = Inr threshold \<and> execute_raises e = None
       \<and> commit_raises e = Some exc"
  let ?accounts = "filter (refresh_candidate threshold) (db w)"
  let ?init = "\<lparr>success = 0, failed = 0, skipped = 0\<rparr>"
  obtain st pending w1 where l: "refresh_loop e cid cs ?accounts (?init, db w, w) = (st, pending, w1)"
    by (cases "refresh_loop e cid cs ?accounts (?init, db w, w)") auto
  have w1: "db w1 = db w"
    using db_refresh_loop [of e cid cs ?accounts ?init "db w" w] l by simp
  show "fst (refresh_all_tokens e cid cs h w) = Inl (ValueError (''Failed to refresh tokens: '' @ str exc))"
    using a l by (simp add: refresh_all_tokens_def execute_all_def commit_def)
  show "db (snd (refresh_all_tokens e cid cs h w)) = db w"
    using a l w1 by (simp add: refresh_all_tokens_def execute_all_def commit_def logger_def)
qed

theorem refresh_all_tokens_counts_or_error_witness:
  "(\<exists>st w'. refresh_all_tokens batch_env ''cid'' ''secret'' 24 batch_world = (Inr st, w')
      \<and> failed st = 1 \<and> skipped st = 0 \<and> success st = 1
      \<and> failure_records (logged w') = 1)
   \<and> fst (refresh_all_tokens demo_env ''cid'' ''secret'' 24000000000 demo_world)
        = Inl (ValueError ''Failed to refresh tokens: OverflowError'')
   \<and> fst (refresh_all_tokens (demo_env\<lparr>commit_raises := Some (OtherError ''deadlock'')\<rparr>)
            ''cid'' ''secret'' 24 demo_world)
        = Inl (ValueError ''Failed to refresh tokens: deadlock'')"
proof -
  have th: "refresh_threshold batch_env 24 = Inr 86400001000"
    using demo_threshold by (simp add: refresh_threshold_def batch_env_def)
  have h1: "refresh_threshold batch_env 24 = Inr 86400001000 \<and> execute_raises batch_env = None
      \<and> commit_raises batch_env = None"
    using th by (simp add: batch_env_def demo_env_def)
  have cand: "filter (refresh_candidate 86400001000) (db batch_world) = [acct_1, acct_2]"
    by (simp add: batch_world_def acct_1_def acct_2_def refresh_candidate_def)
  have i1: "item_raises batch_env ''cid'' ''secret'' acct_1 \<and> \<not> item_skipped batch_env ''cid'' ''secret'' acct_1
      \<and> \<not> item_refreshed batch_env ''cid'' ''secret'' acct_1"
    by (simp add: item_raises_def item_skipped_def item_refreshed_def refresh_one_batch_1)
  have i2: "\<not> item_raises batch_env ''cid'' ''secret'' acct_2 \<and> \<not> item_skipped batch_env ''cid'' ''secret'' acct_2
      \<and> item_refreshed batch_env ''cid'' ''secret'' acct_2"
    by (simp add: item_raises_def item_skipped_def item_refreshed_def refresh_one_batch_2)
  have l0: "failure_records (logged batch_world) = 0"
    by (simp add: failure_records_def batch_world_def)
  have c1: "\<exists>st w'. refresh_all_tokens batch_env ''cid'' ''secret'' 24 batch_world = (Inr st, w')
      \<and> failed st = 1 \<and> skipped st = 0 \<and> success st = 1
      \<and> failure_records (logged w') = 1"
    using refresh_all_tokens_counts_or_error [where e=batch_env and h=24 and threshold=86400001000
        and cid="''cid''" and cs="''secret''" and w=batch_world, THEN conjunct1, THEN mp, OF h1]
    unfolding cand using i1 i2 l0 by auto
  have h2: "refresh_threshold demo_env 24000000000 = Inl (OtherError ''OverflowError'')"
    by (simp add: refresh_threshold_def timedelta_hours_def and_then_def)
  have c2: "fst (refresh_all_tokens demo_env ''cid'' ''secret'' 24000000000 demo_world)
        = Inl (ValueError ''Failed to refresh tokens: OverflowError'')"
    using refresh_all_tokens_counts_or_error [where e=demo_env and h=24000000000
        and exc="OtherError ''OverflowError''" and cid="''cid''" and cs="''secret''" and w=demo_world,
        THEN conjunct2, THEN conjunct1, THEN mp, OF h2] by simp
  have h3: "refresh_threshold (demo_env\<lparr>commit_raises := Some (OtherError ''deadlock'')\<rparr>) 24 = Inr 86400001000
     \<and> execute_raises (demo_env\<lparr>commit_raises := Some (OtherError ''deadlock'')\<rparr>) = None
     \<and> commit_raises (demo_env\<lparr>commit_raises := Some (OtherError ''deadlock'')\<rparr>) = Some (OtherError ''deadlock'')"
    using demo_threshold by (simp add: refresh_threshold_def demo_env_def)
  have c3: "fst (refresh_all_tokens (demo_env\<lparr>commit_raises := Some (OtherError ''deadlock'')\<rparr>)
            ''cid'' ''secret'' 24 demo_world)
        = Inl (ValueError ''Failed to refresh tokens: deadlock'')"
    using refresh_all_tokens_counts_or_error [where e="demo_env\<lparr>commit_raises := Some (OtherError ''deadlock'')\<rparr>"
        and cid="''cid''" and cs="''secret''" and h=24 and w=demo_world and exc="OtherError ''deadlock''"
        and threshold=86400001000,
        THEN conjunct2, THEN conjunct2, THEN conjunct2, THEN mp, OF h3]
    by simp
  from c1 c2 c3 show ?thesis by blast
qed

text \<open>
  C7 as stated (the batch never raises, for every input) fails when the session cannot
  run the query.
\<close>

theorem refresh_all_tokens_raises_counterexample:
  "fst (refresh_all_tokens (demo_env\<lparr>execute_raises := Some (OtherError ''connection lost'')\<rparr>)
          ''cid'' ''secret'' 24 demo_world)
     = Inl (ValueError ''Failed to refresh tokens: connection lost'')"
  by (simp add: refresh_all_tokens_def execute_all_def demo_env_def refresh_threshold_def
      timedelta_hours_def datetime_add_def and_then_def datetime_min_def datetime_max_def)




end
